theory Spec2Isabelle
  imports Main "HOL-Library.Word" "HOL-Library.Multiset" "HOL-Library.List_Lexorder"
    "HOL-Library.Char_ord"
begin

unbundle bit_operations_syntax

section \<open>Data model\<close>

text \<open>
  The repository is a thin Go wrapper around the standard library: package \<open>x509\<close>
  (\<open>privkey.go\<close> and the certificate file) and two command-line entry points.
  The Go types it uses are modelled as follows.
  \<^item> \<open>[]byte\<close> is a list of 8-bit words; where the source tests a slice against
    \<open>nil\<close> the slice is an \<open>option\<close> (\<open>None\<close> is the nil slice).
  \<^item> A pointer that the source dereferences is an \<open>option\<close>; dereferencing
    \<open>None\<close> is the run-time panic, the error value \<open>Panic\<close>.
  \<^item> \<open>*big.Int\<close> is \<open>int\<close>; \<open>time.Time\<close> is the wall-clock reading in
    nanoseconds, an \<open>int\<close>; \<open>time.Duration\<close> is a signed 64-bit count of
    nanoseconds, a \<open>64 word\<close> read with \<open>sint\<close>; Go's \<open>int\<close> is 64 bits wide.
  \<^item> Paths are those of a Unix system: the only separator is the slash.
\<close>

type_synonym byte = "8 word"

datatype elliptic_Curve = P224 | P256 | P384 | P521

record ecdsa_PublicKey =
  pub_Curve :: elliptic_Curve
  pub_X :: int
  pub_Y :: int

record ecdsa_PrivateKey =
  priv_PublicKey :: ecdsa_PublicKey
  priv_D :: int

record pkix_Name =
  CommonName :: string
  Organization :: "string list"

datatype x509_ExtKeyUsage =
    ExtKeyUsageAny
  | ExtKeyUsageServerAuth
  | ExtKeyUsageClientAuth
  | ExtKeyUsageCodeSigning
  | ExtKeyUsageEmailProtection

text \<open>
  The fields of the standard library's \<open>x509.Certificate\<close> that the repository sets or
  that certificate creation fills in. A composite literal leaves every field it does not
  name at its zero value; \<open>zero_Certificate\<close> is that value.
\<close>

record x509_Certificate =
  SerialNumber :: int
  Issuer :: pkix_Name
  Subject :: pkix_Name
  NotBefore :: int
  NotAfter :: int
  KeyUsage :: int
  ExtKeyUsage :: "x509_ExtKeyUsage list"
  BasicConstraintsValid :: bool
  IsCA :: bool
  DNSNames :: "string list"
  IPAddresses :: "byte list list"
  PublicKey :: "ecdsa_PublicKey option"

definition zero_Name :: pkix_Name where
  "zero_Name = \<lparr>CommonName = [], Organization = []\<rparr>"

definition zero_Certificate :: x509_Certificate where
  "zero_Certificate =
     \<lparr>SerialNumber = 0, Issuer = zero_Name, Subject = zero_Name, NotBefore = 0, NotAfter = 0,
      KeyUsage = 0, ExtKeyUsage = [], BasicConstraintsValid = False, IsCA = False,
      DNSNames = [], IPAddresses = [], PublicKey = None\<rparr>"

text \<open>The constants \<open>1 << iota\<close> of the standard library's key usage bit set.\<close>

definition KeyUsageDigitalSignature :: int where
  "KeyUsageDigitalSignature = push_bit 0 1"

definition KeyUsageCertSign :: int where
  "KeyUsageCertSign = push_bit 5 1"

text \<open>\<open>time.Hour\<close>, in nanoseconds.\<close>

definition time_Hour :: "64 word" where
  "time_Hour = 3600000000000"

text \<open>The repository's own two types: each wraps a pointer of the standard library.\<close>

record PrivateKey =
  key :: "ecdsa_PrivateKey option"

record Certificate =
  cert :: "x509_Certificate option"
  derBytes :: "byte list option"

text \<open>
  An error value of the standard library or the operating system carries its message only.
  The repository wraps it with \<open>fmt.Errorf\<close>; each wrapping format is one constructor,
  named after the error taxonomy. \<open>Panic\<close> is a nil dereference.
\<close>

datatype go_error = Cause string

datatype error =
    KeyGenerationError go_error
  | MarshalError go_error
  | WriteError string go_error
  | ReadError string go_error
  | ParseError string go_error
  | SerialNumberError go_error
  | CertificateCreationError go_error
  | CertificateParseError go_error
  | NilDERBytesError
  | Panic

section \<open>The environment\<close>

text \<open>
  Everything the program does to the outside is recorded in the world it is passed:
  the files (path to contents), their permission bits (path to mode, for the files whose
  mode is known), the file mode creation mask of the process, the paths at which opening
  a file for writing fails, the bytes the random source still holds (a read of more bytes
  than are left fails), the wall clock, and the trace of calls made so far, oldest first.
\<close>

datatype level = Info | Error

datatype crypto_op =
    OpGenerateKey
  | OpRandInt
  | OpCreateCertificate
  | OpParseCertificate
  | OpMarshalECPrivateKey
  | OpParseECPrivateKey

datatype event =
    Log level string
  | FlagUsage
  | Crypto crypto_op
  | FileWrite string "byte list" "32 word"
  | FileRead string

record world =
  files :: "string \<rightharpoonup> byte list"
  modes :: "string \<rightharpoonup> 32 word"
  umask :: "32 word"
  unwritable :: "string list"
  rand_Reader :: "byte list"
  clock :: int
  trace :: "event list"

definition emit :: "event \<Rightarrow> world \<Rightarrow> world" where
  "emit e w = w\<lparr>trace := trace w @ [e]\<rparr>"

text \<open>\<open>slog.Error\<close> and \<open>slog.Info\<close>: the message is kept, the attributes are not.\<close>

definition slog_Error :: "string \<Rightarrow> world \<Rightarrow> world" where
  "slog_Error msg w = emit (Log Error msg) w"

definition slog_Info :: "string \<Rightarrow> world \<Rightarrow> world" where
  "slog_Info msg w = emit (Log Info msg) w"

definition time_Now :: "world \<Rightarrow> int" where
  "time_Now w = clock w"

text \<open>\<open>Time.Add\<close> returns the time \<open>t + d\<close>.\<close>

definition time_Add :: "int \<Rightarrow> 64 word \<Rightarrow> int" where
  "time_Add t d = t + sint d"

text \<open>A Go octal literal such as \<open>0600\<close>, from its digits.\<close>

definition octal :: "nat list \<Rightarrow> 32 word" where
  "octal ds = foldl (\<lambda>acc d. acc * 8 + of_nat d) 0 ds"


text \<open>
  \<open>os.WriteFile(name, data, perm)\<close>: one whole-buffer write. Opening fails for the empty
  name and for the names the world lists; otherwise the file holds exactly \<open>data\<close>
  afterwards. If the file does not exist, it is created with the permission bits
  \<open>perm\<close> less those of the mask; if it exists, it is truncated and its permission bits
  stay as they were. The call is traced with the permission bits it asks for.
\<close>

definition os_WriteFile :: "string \<Rightarrow> byte list \<Rightarrow> 32 word \<Rightarrow> world \<Rightarrow> (go_error + unit) \<times> world" where
  "os_WriteFile name data perm w =
     (let w1 = emit (FileWrite name data perm) w in
      if name = [] \<or> name \<in> set (unwritable w) then (Inl (Cause ''open: cannot write''), w1)
      else
        (Inr (),
         w1\<lparr>files := (files w1)(name \<mapsto> data),
             modes := (if files w name = None
                       then (modes w1)(name \<mapsto> perm AND NOT (umask w))
                       else modes w1)\<rparr>))"

definition os_ReadFile :: "string \<Rightarrow> world \<Rightarrow> (go_error + byte list) \<times> world" where
  "os_ReadFile name w =
     (let w1 = emit (FileRead name) w in
      case files w name of
        None \<Rightarrow> (Inl (Cause ''open: no such file or directory''), w1)
      | Some data \<Rightarrow> (Inr data, w1))"

section \<open>Standard library functions the repository calls\<close>

subsection \<open>strings.TrimSuffix and filepath.Ext\<close>

definition strings_HasSuffix :: "string \<Rightarrow> string \<Rightarrow> bool" where
  "strings_HasSuffix s suffix \<longleftrightarrow>
     length suffix \<le> length s \<and> drop (length s - length suffix) s = suffix"

definition strings_TrimSuffix :: "string \<Rightarrow> string \<Rightarrow> string" where
  "strings_TrimSuffix s suffix =
     (if strings_HasSuffix s suffix then take (length s - length suffix) s else s)"

text \<open>
  \<open>filepath.Ext\<close> scans the path from its last byte towards the first and stops at a
  separator: \<open>for i := len(path) - 1; i >= 0 && !os.IsPathSeparator(path[i]); i--\<close>, returning
  \<open>path[i:]\<close> at the first dot met and the empty string when the loop ends. The second
  argument of \<open>Ext_loop\<close> is \<open>i + 1\<close>.
\<close>

fun Ext_loop :: "string \<Rightarrow> nat \<Rightarrow> string" where
  "Ext_loop path 0 = []"
| "Ext_loop path (Suc i) =
     (if path ! i = CHR ''/'' then []
      else if path ! i = CHR ''.'' then drop i path
      else Ext_loop path i)"

definition filepath_Ext :: "string \<Rightarrow> string" where
  "filepath_Ext path = Ext_loop path (length path)"

subsection \<open>crypto/rand.Int\<close>

text \<open>\<open>big.Int.BitLen\<close>: the length of the absolute value in bits, 0 for 0.\<close>

function BitLen :: "int \<Rightarrow> nat" where
  "BitLen n = (if n = 0 then 0 else Suc (BitLen (\<bar>n\<bar> div 2)))"
  by pat_completeness auto
termination
  by (relation "measure (\<lambda>n. nat \<bar>n\<bar>)") auto

text \<open>\<open>big.Int.SetBytes\<close>: the bytes read as a big-endian unsigned integer.\<close>

definition SetBytes :: "byte list \<Rightarrow> int" where
  "SetBytes bs = foldl (\<lambda>acc b. acc * 256 + uint b) 0 bs"

text \<open>
  The rejection loop of \<open>rand.Int\<close>: read \<open>k\<close> bytes with \<open>io.ReadFull\<close>, clear the
  surplus bits of the first one, and return the value if it is below the limit (the source's \<open>max\<close>). The result is
  \<open>None\<close> where Go panics (index 0 of an empty buffer), \<open>Inl\<close> where the read fails.
\<close>

function rand_Int_loop :: "nat \<Rightarrow> nat \<Rightarrow> int \<Rightarrow> byte list \<Rightarrow> ((go_error + int) \<times> byte list) option" where
  "rand_Int_loop k b limit rnd =
     (if length rnd < k then Some (Inl (Cause ''unexpected EOF''), [])
      else if k = 0 then None
      else
        let bytes = take k rnd;
            bytes0 = (hd bytes AND word_of_int (push_bit b 1 - 1)) # tl bytes;
            n = SetBytes bytes0
        in if n < limit then Some (Inr n, drop k rnd)
           else rand_Int_loop k b limit (drop k rnd))"
  by pat_completeness auto
termination
  by (relation "measure (\<lambda>(k, b, limit, rnd). length rnd)") auto

text \<open>
  \<open>rand.Int(rand.Reader, limit)\<close>: panics for \<open>limit \<le> 0\<close>; returns 0 without reading when
  \<open>limit - 1\<close> has no bits; otherwise runs the loop with \<open>k = (bitLen + 7) / 8\<close> bytes and
  \<open>b = bitLen % 8\<close> bits in the first byte (8 when that is 0).
\<close>

definition rand_Int :: "byte list \<Rightarrow> int \<Rightarrow> ((go_error + int) \<times> byte list) option" where
  "rand_Int rnd limit =
     (if limit \<le> 0 then None
      else
        let bitLen = BitLen (limit - 1) in
        if bitLen = 0 then Some (Inr 0, rnd)
        else
          let k = (bitLen + 7) div 8;
              b = (if bitLen mod 8 = 0 then 8 else bitLen mod 8)
          in rand_Int_loop k b limit rnd)"

subsection \<open>The cryptographic primitives\<close>

text \<open>
  Key generation, DER marshalling and parsing, and certificate creation are the standard
  library's; the repository only calls them. They are parameters of the model, one field
  of \<open>crypto_lib\<close> each. A function that draws randomness takes the bytes the random
  source holds and returns those it leaves.
\<close>

record crypto_lib =
  ecdsa_GenerateKey ::
    "elliptic_Curve \<Rightarrow> byte list \<Rightarrow> (go_error + ecdsa_PrivateKey) \<times> byte list"
  x509_MarshalECPrivateKey :: "ecdsa_PrivateKey \<Rightarrow> go_error + byte list"
  x509_ParseECPrivateKey :: "byte list \<Rightarrow> go_error + ecdsa_PrivateKey"
  x509_CreateCertificate ::
    "byte list \<Rightarrow> x509_Certificate \<Rightarrow> x509_Certificate \<Rightarrow> ecdsa_PublicKey \<Rightarrow> ecdsa_PrivateKey
       \<Rightarrow> (go_error + byte list option) \<times> byte list"
  x509_ParseCertificate :: "byte list option \<Rightarrow> go_error + x509_Certificate"

section \<open>Package x509: private keys (privkey.go)\<close>

definition NewPrivateKey :: "crypto_lib \<Rightarrow> world \<Rightarrow> (error + PrivateKey) \<times> world" where
  "NewPrivateKey lib w =
     (case ecdsa_GenerateKey lib P256 (rand_Reader w) of
        (r, rnd1) \<Rightarrow>
          let w1 = emit (Crypto OpGenerateKey) (w\<lparr>rand_Reader := rnd1\<rparr>) in
          (case r of
             Inl err \<Rightarrow>
               (Inl (KeyGenerationError err), slog_Error ''Failed to generate private key'' w1)
           | Inr priv \<Rightarrow>
               (Inr \<lparr>key = Some priv\<rparr>, slog_Info ''Generated new private key'' w1)))"

text \<open>\<open>Key\<close> has a pointer receiver: on a nil receiver reading the field panics.\<close>

definition Key :: "PrivateKey option \<Rightarrow> error + ecdsa_PrivateKey option" where
  "Key p = (case p of None \<Rightarrow> Inl Panic | Some pk \<Rightarrow> Inr (key pk))"

text \<open>
  \<open>SaveToFile\<close> of a private key. Marshalling reads the curve of the key it is given, so
  a nil key panics, as a nil receiver does.
\<close>

definition PrivateKey_SaveToFile ::
    "crypto_lib \<Rightarrow> PrivateKey option \<Rightarrow> string \<Rightarrow> world \<Rightarrow> (error + unit) \<times> world" where
  "PrivateKey_SaveToFile lib p filePath w =
     (case p of
        None \<Rightarrow> (Inl Panic, w)
      | Some pk \<Rightarrow>
          (case key pk of
             None \<Rightarrow> (Inl Panic, w)
           | Some k \<Rightarrow>
               let w1 = emit (Crypto OpMarshalECPrivateKey) w in
               (case x509_MarshalECPrivateKey lib k of
                  Inl err \<Rightarrow>
                    (Inl (MarshalError err),
                     slog_Error ''Failed to marshal private key to DER'' w1)
                | Inr der \<Rightarrow>
                    (case os_WriteFile filePath der (octal [0, 6, 0, 0]) w1 of
                       (Inl err, w2) \<Rightarrow>
                         (Inl (WriteError filePath err),
                          slog_Error ''Failed to write DER data to private key file'' w2)
                     | (Inr u, w2) \<Rightarrow>
                         (Inr (), slog_Info ''Saved private key in DER format'' w2)))))"

definition LoadPrivateKeyFromFile ::
    "crypto_lib \<Rightarrow> string \<Rightarrow> world \<Rightarrow> (error + PrivateKey) \<times> world" where
  "LoadPrivateKeyFromFile lib filePath w =
     (case os_ReadFile filePath w of
        (Inl err, w1) \<Rightarrow>
          (Inl (ReadError filePath err), slog_Error ''Failed to read private key file'' w1)
      | (Inr derData, w1) \<Rightarrow>
          let w2 = emit (Crypto OpParseECPrivateKey) w1 in
          (case x509_ParseECPrivateKey lib derData of
             Inl err \<Rightarrow>
               (Inl (ParseError filePath err),
                slog_Error ''Failed to parse DER-encoded private key'' w2)
           | Inr privKey \<Rightarrow>
               (Inr \<lparr>key = Some privKey\<rparr>, slog_Info ''Loaded private key in DER format'' w2)))"

section \<open>Package x509: certificates\<close>

text \<open>
  The template of \<open>NewCertificate\<close>: the composite literal, then the two assignments under
  \<open>if isCA\<close>.
\<close>

definition template_literal ::
    "int \<Rightarrow> string \<Rightarrow> string list \<Rightarrow> int \<Rightarrow> 64 word \<Rightarrow> string list \<Rightarrow> byte list list
       \<Rightarrow> x509_Certificate" where
  "template_literal serialNumber commonName organization now validFor dnsNames ipAddresses =
     zero_Certificate
       \<lparr>SerialNumber := serialNumber,
        Subject := \<lparr>CommonName = commonName, Organization = organization\<rparr>,
        NotBefore := now,
        NotAfter := time_Add now validFor,
        KeyUsage := KeyUsageDigitalSignature,
        ExtKeyUsage := [ExtKeyUsageServerAuth, ExtKeyUsageClientAuth],
        BasicConstraintsValid := True,
        DNSNames := dnsNames,
        IPAddresses := ipAddresses\<rparr>"

definition new_template ::
    "int \<Rightarrow> string \<Rightarrow> string list \<Rightarrow> int \<Rightarrow> 64 word \<Rightarrow> string list \<Rightarrow> byte list list \<Rightarrow> bool
       \<Rightarrow> x509_Certificate" where
  "new_template serialNumber commonName organization now validFor dnsNames ipAddresses isCA =
     (let template =
            template_literal serialNumber commonName organization now validFor dnsNames ipAddresses
      in if isCA
         then template\<lparr>IsCA := True, KeyUsage := KeyUsage template OR KeyUsageCertSign\<rparr>
         else template)"

definition NewCertificate ::
    "crypto_lib \<Rightarrow> PrivateKey option \<Rightarrow> string \<Rightarrow> string list \<Rightarrow> string list \<Rightarrow> byte list list
       \<Rightarrow> 64 word \<Rightarrow> bool \<Rightarrow> world \<Rightarrow> (error + Certificate) \<times> world" where
  "NewCertificate lib privKey commonName organization dnsNames ipAddresses validFor isCA w =
     (let serialNumberLimit = push_bit 128 (1 :: int) in
      case rand_Int (rand_Reader w) serialNumberLimit of
        None \<Rightarrow> (Inl Panic, w)
      | Some (r, rnd1) \<Rightarrow>
          let w1 = emit (Crypto OpRandInt) (w\<lparr>rand_Reader := rnd1\<rparr>) in
          (case r of
             Inl err \<Rightarrow>
               (Inl (SerialNumberError err), slog_Error ''Failed to generate serial number'' w1)
           | Inr serialNumber \<Rightarrow>
               let now = time_Now w1;
                   template =
                     new_template serialNumber commonName organization now validFor
                       dnsNames ipAddresses isCA
               in
               (case Key privKey of
                  Inl e \<Rightarrow> (Inl e, w1)
                | Inr None \<Rightarrow> (Inl Panic, w1)
                | Inr (Some k) \<Rightarrow>
                    let pubKey = priv_PublicKey k in
                    (case x509_CreateCertificate lib (rand_Reader w1) template template pubKey k of
                       (r2, rnd2) \<Rightarrow>
                         let w2 = emit (Crypto OpCreateCertificate) (w1\<lparr>rand_Reader := rnd2\<rparr>) in
                         (case r2 of
                            Inl err \<Rightarrow>
                              (Inl (CertificateCreationError err),
                               slog_Error ''Failed to create certificate'' w2)
                          | Inr der \<Rightarrow>
                              let w3 = emit (Crypto OpParseCertificate) w2 in
                              (case x509_ParseCertificate lib der of
                                 Inl err \<Rightarrow>
                                   (Inl (CertificateParseError err),
                                    slog_Error ''Failed to parse created certificate'' w3)
                               | Inr c \<Rightarrow>
                                   (Inr \<lparr>cert = Some c, derBytes = der\<rparr>,
                                    slog_Info ''Successfully created new certificate'' w3)))))))"

definition Cert :: "Certificate option \<Rightarrow> error + x509_Certificate option" where
  "Cert c = (case c of None \<Rightarrow> Inl Panic | Some x \<Rightarrow> Inr (cert x))"

definition DERBytes :: "Certificate option \<Rightarrow> error + byte list option" where
  "DERBytes c = (case c of None \<Rightarrow> Inl Panic | Some x \<Rightarrow> Inr (derBytes x))"

definition Certificate_SaveToFile ::
    "Certificate option \<Rightarrow> string \<Rightarrow> world \<Rightarrow> (error + unit) \<times> world" where
  "Certificate_SaveToFile c filePath w =
     (case c of
        None \<Rightarrow> (Inl Panic, w)
      | Some x \<Rightarrow>
          (case derBytes x of
             None \<Rightarrow> (Inl NilDERBytesError, w)
           | Some der \<Rightarrow>
               (case os_WriteFile filePath der (octal [0, 6, 4, 4]) w of
                  (Inl err, w1) \<Rightarrow>
                    (Inl (WriteError filePath err),
                     slog_Error ''Failed to write DER data to certificate file'' w1)
                | (Inr u, w1) \<Rightarrow>
                    (Inr (), slog_Info ''Saved certificate in DER format'' w1))))"

section \<open>The command-line entry points\<close>

text \<open>
  Each \<open>main\<close> is a function from the parsed flag values and the world to the exit status
  of the process and the world it leaves: 1 after \<open>os.Exit(1)\<close>, 0 when \<open>main\<close> returns,
  2 when a panic ends the process.
\<close>

text \<open>The key-only generator; its one flag is \<open>-o\<close>.\<close>

definition main_keygen :: "crypto_lib \<Rightarrow> string \<Rightarrow> world \<Rightarrow> nat \<times> world" where
  "main_keygen lib outputFilePath w =
     (if outputFilePath = []
      then (1, emit FlagUsage (slog_Error ''Output file path cannot be empty'' w))
      else
        (case NewPrivateKey lib w of
           (Inl err, w1) \<Rightarrow>
             (if err = Panic then (2, w1)
              else (1, slog_Error ''Failed to generate private key'' w1))
         | (Inr privKey, w1) \<Rightarrow>
             (case PrivateKey_SaveToFile lib (Some privKey) outputFilePath w1 of
                (Inl err, w2) \<Rightarrow>
                  (if err = Panic then (2, w2)
                   else (1, slog_Error ''Failed to save private key to file'' w2))
              | (Inr u, w2) \<Rightarrow>
                  (0, slog_Info ''Successfully generated and saved private key'' w2))))"

text \<open>The key and certificate generator, with the values of its five flags.\<close>

record cert_flags =
  flag_key :: string
  flag_cert :: string
  flag_cn :: string
  flag_org :: string
  flag_days :: "64 word"

definition default_flags :: cert_flags where
  "default_flags =
     \<lparr>flag_key = ''private_key.der'', flag_cert = [], flag_cn = ''Self Signed Cert'',
      flag_org = ''My Org'', flag_days = 365\<rparr>"

text \<open>The certificate path after the block \<open>if certFilePath == ""\<close>.\<close>

definition derived_certFilePath :: "cert_flags \<Rightarrow> string" where
  "derived_certFilePath fl =
     (if flag_cert fl = []
      then
        let baseName = strings_TrimSuffix (flag_key fl) (filepath_Ext (flag_key fl))
        in baseName @ ''.crt''
      else flag_cert fl)"

text \<open>\<open>time.Duration(validityDays) * 24 * time.Hour\<close>, in 64-bit arithmetic.\<close>

definition validFor_of_days :: "64 word \<Rightarrow> 64 word" where
  "validFor_of_days validityDays = validityDays * 24 * time_Hour"

definition main_cert :: "crypto_lib \<Rightarrow> cert_flags \<Rightarrow> world \<Rightarrow> nat \<times> world" where
  "main_cert lib fl w =
     (if flag_key fl = []
      then (1, emit FlagUsage (slog_Error ''Private key output file path cannot be empty'' w))
      else
        let certFilePath = derived_certFilePath fl;
            w0 = slog_Info ''Generating new private key...'' w
        in
        (case NewPrivateKey lib w0 of
           (Inl err, w1) \<Rightarrow>
             (if err = Panic then (2, w1)
              else (1, slog_Error ''Failed to generate private key'' w1))
         | (Inr privKey, w1) \<Rightarrow>
             (case PrivateKey_SaveToFile lib (Some privKey) (flag_key fl)
                     (slog_Info ''Saving private key...'' w1) of
                (Inl err, w2) \<Rightarrow>
                  (if err = Panic then (2, w2)
                   else (1, slog_Error ''Failed to save private key to file'' w2))
              | (Inr u, w2) \<Rightarrow>
                  let w3 = slog_Info ''Generating new certificate...''
                             (slog_Info ''Successfully saved private key'' w2);
                      validFor = validFor_of_days (flag_days fl)
                  in
                  (case NewCertificate lib (Some privKey) (flag_cn fl) [flag_org fl] [] []
                          validFor False w3 of
                     (Inl err, w4) \<Rightarrow>
                       (if err = Panic then (2, w4)
                        else (1, slog_Error ''Failed to generate certificate'' w4))
                   | (Inr c, w4) \<Rightarrow>
                       (case Certificate_SaveToFile (Some c) certFilePath
                               (slog_Info ''Saving certificate...'' w4) of
                          (Inl err, w5) \<Rightarrow>
                            (if err = Panic then (2, w5)
                             else (1, slog_Error ''Failed to save certificate to file'' w5))
                        | (Inr u, w5) \<Rightarrow>
                            (0, slog_Info ''Successfully generated and saved certificate'' w5))))))"

section \<open>What the repository relies on in the standard library\<close>

text \<open>
  The properties of the standard library that the claims about finished certificates and
  reloaded keys rest on. Each is a hypothesis where it is used, never an axiom.
\<close>

text \<open>
  Parsing the bytes that certificate creation returned gives a subject with the common
  name of the template's subject and with its organizations, which stand in one DER set
  and may come back in another order; an issuer that is so related to the subject of the
  parent; the same name as issuer and as subject when the parent's subject is the
  template's, a name being encoded and parsed in one way; and the public key that was
  passed in.
\<close>

definition keeps_names :: "crypto_lib \<Rightarrow> bool" where
  "keeps_names lib \<longleftrightarrow>
     (\<forall>rnd t parent pub priv der rnd' c.
        x509_CreateCertificate lib rnd t parent pub priv = (Inr der, rnd') \<longrightarrow>
        x509_ParseCertificate lib der = Inr c \<longrightarrow>
        CommonName (Subject c) = CommonName (Subject t) \<and>
        mset (Organization (Subject c)) = mset (Organization (Subject t)) \<and>
        CommonName (Issuer c) = CommonName (Subject parent) \<and>
        mset (Organization (Issuer c)) = mset (Organization (Subject parent)) \<and>
        (Subject parent = Subject t \<longrightarrow> Issuer c = Subject c) \<and>
        PublicKey c = Some pub)"

text \<open>
  A certificate carries its two times in whole seconds: parsing gives the times of the
  template with the nanoseconds within the second cut off.
\<close>

definition whole_seconds :: "int \<Rightarrow> int" where
  "whole_seconds t = t - t mod 1000000000"

definition keeps_times :: "crypto_lib \<Rightarrow> bool" where
  "keeps_times lib \<longleftrightarrow>
     (\<forall>rnd t parent pub priv der rnd' c.
        x509_CreateCertificate lib rnd t parent pub priv = (Inr der, rnd') \<longrightarrow>
        x509_ParseCertificate lib der = Inr c \<longrightarrow>
        NotBefore c = whole_seconds (NotBefore t) \<and>
        NotAfter c = whole_seconds (NotAfter t))"

text \<open>
  It gives back the extended key usages and the basic-constraints marker, the CA flag
  when the marker is set, and the key usage when it lies within the nine defined bits.
\<close>

definition keeps_usage :: "crypto_lib \<Rightarrow> bool" where
  "keeps_usage lib \<longleftrightarrow>
     (\<forall>rnd t parent pub priv der rnd' c.
        x509_CreateCertificate lib rnd t parent pub priv = (Inr der, rnd') \<longrightarrow>
        x509_ParseCertificate lib der = Inr c \<longrightarrow>
        ExtKeyUsage c = ExtKeyUsage t \<and>
        BasicConstraintsValid c = BasicConstraintsValid t \<and>
        (BasicConstraintsValid t \<longrightarrow> IsCA c = IsCA t) \<and>
        (0 \<le> KeyUsage t \<and> KeyUsage t < 512 \<longrightarrow> KeyUsage c = KeyUsage t))"

text \<open>It gives back the serial number.\<close>

definition keeps_serial :: "crypto_lib \<Rightarrow> bool" where
  "keeps_serial lib \<longleftrightarrow>
     (\<forall>rnd t parent pub priv der rnd' c.
        x509_CreateCertificate lib rnd t parent pub priv = (Inr der, rnd') \<longrightarrow>
        x509_ParseCertificate lib der = Inr c \<longrightarrow>
        SerialNumber c = SerialNumber t)"

text \<open>Parsing a nil slice as a certificate fails.\<close>

definition rejects_nil :: "crypto_lib \<Rightarrow> bool" where
  "rejects_nil lib \<longleftrightarrow> (\<exists>e. x509_ParseCertificate lib None = Inl e)"

text \<open>
  A generated key lies on the curve asked for, and the bytes it marshals to parse back to
  a key with the same public component.
\<close>

definition key_roundtrip :: "crypto_lib \<Rightarrow> bool" where
  "key_roundtrip lib \<longleftrightarrow>
     (\<forall>c rnd k rnd'.
        ecdsa_GenerateKey lib c rnd = (Inr k, rnd') \<longrightarrow>
        pub_Curve (priv_PublicKey k) = c \<and>
        (\<forall>der. x509_MarshalECPrivateKey lib k = Inr der \<longrightarrow>
           (\<exists>k'. x509_ParseECPrivateKey lib der = Inr k' \<and>
                 priv_PublicKey k' = priv_PublicKey k)))"

section \<open>A small instance of the library, and sample runs\<close>

text \<open>
  An instance of \<open>crypto_lib\<close> on which the definitions can be run: a key is made from
  one random byte and marshals to that byte; a certificate is the index of its template,
  parent and public key in a finite table, and parses back to the template with the
  organizations of its subject sorted, the issuer (the parent's subject, sorted likewise)
  and the public key filled in, and the two times cut to whole seconds.
\<close>

definition toy_key :: "elliptic_Curve \<Rightarrow> byte \<Rightarrow> ecdsa_PrivateKey" where
  "toy_key c b =
     \<lparr>priv_PublicKey = \<lparr>pub_Curve = c, pub_X = uint b, pub_Y = uint b + 1\<rparr>, priv_D = uint b\<rparr>"

definition toy_GenerateKey ::
    "elliptic_Curve \<Rightarrow> byte list \<Rightarrow> (go_error + ecdsa_PrivateKey) \<times> byte list" where
  "toy_GenerateKey c rnd =
     (case rnd of
        [] \<Rightarrow> (Inl (Cause ''no entropy''), [])
      | b # rest \<Rightarrow> (Inr (toy_key c b), rest))"

definition toy_MarshalECPrivateKey :: "ecdsa_PrivateKey \<Rightarrow> go_error + byte list" where
  "toy_MarshalECPrivateKey k =
     (if pub_Curve (priv_PublicKey k) = P256 then Inr [word_of_int (priv_D k)]
      else Inl (Cause ''unknown elliptic curve''))"

definition toy_ParseECPrivateKey :: "byte list \<Rightarrow> go_error + ecdsa_PrivateKey" where
  "toy_ParseECPrivateKey der =
     (case der of
        [b] \<Rightarrow> Inr (toy_key P256 b)
      | _ \<Rightarrow> Inl (Cause ''malformed key''))"

type_synonym toy_entry = "x509_Certificate \<times> x509_Certificate \<times> ecdsa_PublicKey"

fun toy_index :: "toy_entry list \<Rightarrow> toy_entry \<Rightarrow> nat option" where
  "toy_index [] x = None"
| "toy_index (y # ys) x = (if x = y then Some 0 else map_option Suc (toy_index ys x))"

definition toy_CreateCertificate ::
    "toy_entry list \<Rightarrow> byte list \<Rightarrow> x509_Certificate \<Rightarrow> x509_Certificate \<Rightarrow> ecdsa_PublicKey
       \<Rightarrow> ecdsa_PrivateKey \<Rightarrow> (go_error + byte list option) \<times> byte list" where
  "toy_CreateCertificate db rnd t parent pub priv =
     (case toy_index db (t, parent, pub) of
        None \<Rightarrow> (Inl (Cause ''unsupported certificate''), rnd)
      | Some i \<Rightarrow>
          if i < 256 then (Inr (Some [of_nat i]), rnd)
          else (Inl (Cause ''unsupported certificate''), rnd))"

definition toy_name :: "pkix_Name \<Rightarrow> pkix_Name" where
  "toy_name n = n\<lparr>Organization := sort (Organization n)\<rparr>"

definition toy_parsed ::
    "x509_Certificate \<Rightarrow> x509_Certificate \<Rightarrow> ecdsa_PublicKey \<Rightarrow> x509_Certificate" where
  "toy_parsed t parent pub =
     t\<lparr>Subject := toy_name (Subject t),
       Issuer := toy_name (Subject parent),
       NotBefore := whole_seconds (NotBefore t),
       NotAfter := whole_seconds (NotAfter t),
       PublicKey := Some pub\<rparr>"

definition toy_ParseCertificate ::
    "toy_entry list \<Rightarrow> byte list option \<Rightarrow> go_error + x509_Certificate" where
  "toy_ParseCertificate db der =
     (case der of
        Some [b] \<Rightarrow>
          if unat b < length db
          then (case db ! unat b of (t, parent, pub) \<Rightarrow> Inr (toy_parsed t parent pub))
          else Inl (Cause ''malformed certificate'')
      | _ \<Rightarrow> Inl (Cause ''malformed certificate''))"

definition toy_lib :: "toy_entry list \<Rightarrow> crypto_lib" where
  "toy_lib db =
     \<lparr>ecdsa_GenerateKey = toy_GenerateKey,
      x509_MarshalECPrivateKey = toy_MarshalECPrivateKey,
      x509_ParseECPrivateKey = toy_ParseECPrivateKey,
      x509_CreateCertificate = toy_CreateCertificate db,
      x509_ParseCertificate = toy_ParseCertificate db\<rparr>"

text \<open>
  The sample run of the specification: \<open>-key out.key -cn example.com -org Example -days 30\<close>
  with no \<open>-cert\<close>, on a world with no files, the usual mask \<open>022\<close>, a clock reading on
  a whole second, and a random source holding one byte for the key and sixteen for the
  serial number.
\<close>

definition demo_clock :: int where
  "demo_clock = 1700000000000000000"

definition demo_world :: "byte list \<Rightarrow> world" where
  "demo_world rnd =
     \<lparr>files = Map.empty, modes = Map.empty, umask = octal [0, 0, 2, 2], unwritable = [],
      rand_Reader = rnd, clock = demo_clock, trace = []\<rparr>"

definition demo_rand :: "byte list" where
  "demo_rand = [5, 0, 0, 0, 0, 0, 0, 0, 0, 0, 0, 0, 0, 0, 0, 0, 42]"

definition zero_rand :: "byte list" where
  "zero_rand = [0, 0, 0, 0, 0, 0, 0, 0, 0, 0, 0, 0, 0, 0, 0, 0]"

definition demo_flags :: cert_flags where
  "demo_flags =
     \<lparr>flag_key = ''out.key'', flag_cert = [], flag_cn = ''example.com'',
      flag_org = ''Example'', flag_days = 30\<rparr>"

definition demo_privKey :: PrivateKey where
  "demo_privKey = \<lparr>key = Some (toy_key P256 5)\<rparr>"

definition demo_template :: "int \<Rightarrow> bool \<Rightarrow> x509_Certificate" where
  "demo_template serialNumber isCA =
     new_template serialNumber ''example.com'' [''Example''] demo_clock (validFor_of_days 30)
       [] [] isCA"

text \<open>
  Three more runs: two organizations given out of order; a clock reading one nanosecond
  past the second with a validity of half a second; and worlds in which the key file
  exists already, readable by all, or in which the mask is \<open>077\<close>.
\<close>

definition two_org_template :: x509_Certificate where
  "two_org_template =
     new_template 42 ''example.com'' [''B'', ''A''] demo_clock (validFor_of_days 30) [] [] False"

definition two_org_parsed :: x509_Certificate where
  "two_org_parsed = toy_parsed two_org_template two_org_template (priv_PublicKey (toy_key P256 5))"

definition late_world :: "byte list \<Rightarrow> world" where
  "late_world rnd = (demo_world rnd)\<lparr>clock := demo_clock + 1\<rparr>"

definition late_template :: x509_Certificate where
  "late_template =
     new_template 42 ''example.com'' [''Example''] (demo_clock + 1) 500000000 [] [] False"

definition late_parsed :: x509_Certificate where
  "late_parsed = toy_parsed late_template late_template (priv_PublicKey (toy_key P256 5))"



definition demo_db :: "toy_entry list" where
  "demo_db =
     [(demo_template 42 False, demo_template 42 False, priv_PublicKey (toy_key P256 5)),
      (demo_template 0 False, demo_template 0 False, priv_PublicKey (toy_key P256 5)),
      (demo_template 42 True, demo_template 42 True, priv_PublicKey (toy_key P256 5)),
      (two_org_template, two_org_template, priv_PublicKey (toy_key P256 5)),
      (late_template, late_template, priv_PublicKey (toy_key P256 5))]"

definition demo_lib :: crypto_lib where
  "demo_lib = toy_lib demo_db"

definition demo_parsed :: "int \<Rightarrow> bool \<Rightarrow> x509_Certificate" where
  "demo_parsed serialNumber isCA =
     toy_parsed (demo_template serialNumber isCA) (demo_template serialNumber isCA)
       (priv_PublicKey (toy_key P256 5))"

definition demo_certificate :: "int \<Rightarrow> bool \<Rightarrow> byte \<Rightarrow> Certificate" where
  "demo_certificate serialNumber isCA b =
     \<lparr>cert = Some (demo_parsed serialNumber isCA), derBytes = Some [b]\<rparr>"

section \<open>Lemmas on the standard library functions\<close>

subsection \<open>The serial number draw\<close>

lemma BitLen_128: "BitLen (push_bit 128 1 - 1) = 128"
  by code_simp

lemma SetBytes_snoc: "SetBytes (bs @ [b]) = SetBytes bs * 256 + uint b"
  by (simp add: SetBytes_def)

lemma SetBytes_nonneg: "0 \<le> SetBytes bs"
  by (induction bs rule: rev_induct) (simp_all add: SetBytes_def)

lemma SetBytes_less: "SetBytes bs < 256 ^ length bs"
proof (induction bs rule: rev_induct)
  case Nil
  then show ?case by (simp add: SetBytes_def)
next
  case (snoc b bs)
  have "uint b < 256" using uint_bounded [of b] by simp
  with snoc show ?case by (simp add: SetBytes_snoc)
qed

lemma mask_byte: "(x :: byte) AND word_of_int (push_bit 8 1 - 1) = x"
proof -
  have "(255 :: byte) = - 1" by simp
  then have "x AND 255 = x" by (simp only: and.right_neutral)
  then show ?thesis by simp
qed

lemma rand_Int_loop_16:
  "rand_Int_loop 16 8 (push_bit 128 1) rnd =
     (if length rnd < 16 then Some (Inl (Cause ''unexpected EOF''), [])
      else Some (Inr (SetBytes (take 16 rnd)), drop 16 rnd))"
proof (cases "length rnd < 16")
  case True
  then show ?thesis
    by (subst rand_Int_loop.simps) simp
next
  case False
  then have ne: "take 16 rnd \<noteq> []" by auto
  have len: "length (take 16 rnd) = 16" using False by simp
  have "SetBytes (take 16 rnd) < 256 ^ 16" using SetBytes_less [of "take 16 rnd"] len by simp
  then have lt: "SetBytes (take 16 rnd) < 340282366920938463463374607431768211456" by simp
  have hd_tl: "hd (take 16 rnd) # tl (take 16 rnd) = take 16 rnd" using ne by (rule hd_Cons_tl)
  have m: "hd (take 16 rnd) AND word_of_int (push_bit 8 1 - 1) = hd (take 16 rnd)"
    by (rule mask_byte)
  show ?thesis
    apply (subst rand_Int_loop.simps)
    apply (simp only: Let_def m hd_tl)
    using False lt apply simp
    done
qed

lemma rand_Int_128:
  "rand_Int rnd (push_bit 128 1) =
     (if length rnd < 16 then Some (Inl (Cause ''unexpected EOF''), [])
      else Some (Inr (SetBytes (take 16 rnd)), drop 16 rnd))"
proof -
  have "rand_Int rnd (push_bit 128 1) = rand_Int_loop 16 8 (push_bit 128 1) rnd"
    unfolding rand_Int_def Let_def BitLen_128 by simp
  then show ?thesis by (simp only: rand_Int_loop_16)
qed

lemma SetBytes_inj:
  "length xs = length ys \<Longrightarrow> SetBytes xs = SetBytes ys \<Longrightarrow> xs = ys"
proof (induction xs arbitrary: ys rule: rev_induct)
  case Nil
  then show ?case by simp
next
  case (snoc x xs)
  then obtain y ys' where ys: "ys = ys' @ [y]"
    by (cases ys rule: rev_cases) auto
  have bx: "0 \<le> uint x" "uint x < 256" using uint_bounded [of x] by simp_all
  have by': "0 \<le> uint y" "uint y < 256" using uint_bounded [of y] by simp_all
  from snoc.prems(2) ys have eq: "SetBytes xs * 256 + uint x = SetBytes ys' * 256 + uint y"
    by (simp add: SetBytes_snoc)
  have mx: "(SetBytes xs * 256 + uint x) mod 256 = uint x" using bx by simp
  have my: "(SetBytes ys' * 256 + uint y) mod 256 = uint y" using by' by simp
  have dx: "(SetBytes xs * 256 + uint x) div 256 = SetBytes xs" using bx by simp
  have dy: "(SetBytes ys' * 256 + uint y) div 256 = SetBytes ys'" using by' by simp
  from eq mx my have "uint x = uint y" by simp
  then have "x = y" by (simp only: word_uint_eq_iff)
  moreover from eq dx dy have "SetBytes xs = SetBytes ys'" by simp
  moreover have "length xs = length ys'" using snoc.prems(1) ys by simp
  ultimately show ?case using snoc.IH ys by auto
qed

lemma SetBytes_surj:
  "0 \<le> n \<Longrightarrow> n < 256 ^ k \<Longrightarrow> \<exists>bs. length bs = k \<and> SetBytes bs = n"
proof (induction k arbitrary: n)
  case 0
  then show ?case by (simp add: SetBytes_def)
next
  case (Suc k)
  have "0 \<le> n div 256" "n div 256 < 256 ^ k" using Suc.prems by auto
  with Suc.IH obtain bs where bs: "length bs = k" "SetBytes bs = n div 256" by blast
  have "uint (word_of_int (n mod 256) :: byte) = n mod 256"
    by (simp add: uint_word_of_int take_bit_eq_mod)
  then have "SetBytes (bs @ [word_of_int (n mod 256)]) = n"
    using bs by (simp add: SetBytes_snoc)
  moreover have "length (bs @ [word_of_int (n mod 256) :: byte]) = Suc k" using bs by simp
  ultimately show ?case by blast
qed


lemma SetBytes_bij: "bij_betw SetBytes {bs. length bs = 16} {0 ..< 2 ^ 128}"
  unfolding bij_betw_def
proof
  show "inj_on SetBytes {bs. length bs = 16}"
    by (auto simp: inj_on_def intro: SetBytes_inj)
  have p: "(256 :: int) ^ 16 = 2 ^ 128" by simp
  show "SetBytes ` {bs. length bs = 16} = {0 ..< 2 ^ 128}"
  proof (intro equalityI subsetI)
    fix n assume "n \<in> SetBytes ` {bs. length bs = 16}"
    then obtain bs where bs: "length bs = 16" "n = SetBytes bs" by auto
    have "SetBytes bs < 256 ^ length bs" by (rule SetBytes_less)
    then have "SetBytes bs < 2 ^ 128" using bs(1) p by simp
    with bs(2) SetBytes_nonneg [of bs] show "n \<in> {0 ..< 2 ^ 128}" by simp
  next
    fix n :: int assume "n \<in> {0 ..< 2 ^ 128}"
    then have "0 \<le> n" "n < 256 ^ 16" using p by simp_all
    from SetBytes_surj [OF this] show "n \<in> SetBytes ` {bs. length bs = 16}" by auto
  qed
qed

subsection \<open>The extension of a path\<close>

lemma Ext_loop_shape:
  "Ext_loop p n = [] \<or>
   (\<exists>i<n. Ext_loop p n = drop i p \<and> p ! i = CHR ''.'' \<and>
      (\<forall>j. i < j \<and> j < n \<longrightarrow> p ! j \<noteq> CHR ''.'' \<and> p ! j \<noteq> CHR ''/''))"
proof (induction n)
  case 0
  then show ?case by simp
next
  case (Suc n)
  show ?case
  proof (cases "p ! n = CHR ''/''")
    case True
    then show ?thesis by simp
  next
    case slash: False
    show ?thesis
    proof (cases "p ! n = CHR ''.''")
      case True
      then have "Ext_loop p (Suc n) = drop n p" by simp
      with True show ?thesis by auto
    next
      case False
      with slash have eq: "Ext_loop p (Suc n) = Ext_loop p n" by simp
      from Suc show ?thesis
      proof
        assume "Ext_loop p n = []"
        with eq show ?thesis by simp
      next
        assume "\<exists>i<n. Ext_loop p n = drop i p \<and> p ! i = CHR ''.'' \<and>
                  (\<forall>j. i < j \<and> j < n \<longrightarrow> p ! j \<noteq> CHR ''.'' \<and> p ! j \<noteq> CHR ''/'')"
        then obtain i where i: "i < n" "Ext_loop p n = drop i p" "p ! i = CHR ''.''"
          "\<forall>j. i < j \<and> j < n \<longrightarrow> p ! j \<noteq> CHR ''.'' \<and> p ! j \<noteq> CHR ''/''" by blast
        have "\<forall>j. i < j \<and> j < Suc n \<longrightarrow> p ! j \<noteq> CHR ''.'' \<and> p ! j \<noteq> CHR ''/''"
          using i(4) slash False by (auto simp: less_Suc_eq)
        moreover have "i < Suc n" using i(1) by simp
        moreover have "Ext_loop p (Suc n) = drop i p" using i(2) eq by simp
        ultimately show ?thesis using i(3) by blast
      qed
    qed
  qed
qed

lemma Ext_loop_empty:
  "Ext_loop p n = [] \<Longrightarrow> n \<le> length p \<Longrightarrow> i < n \<Longrightarrow> p ! i = CHR ''.'' \<Longrightarrow>
     \<exists>j. i < j \<and> j < n \<and> p ! j = CHR ''/''"
proof (induction n)
  case 0
  then show ?case by simp
next
  case (Suc n)
  show ?case
  proof (cases "p ! n = CHR ''/''")
    case True
    with Suc.prems have "i \<noteq> n" by auto
    with Suc.prems have "i < n" by simp
    with True show ?thesis by auto
  next
    case False
    with Suc.prems have nodot: "p ! n \<noteq> CHR ''.''" by (auto split: if_splits)
    with False Suc.prems have "Ext_loop p n = []" by simp
    moreover from nodot Suc.prems have "i < n" by (cases "i = n") auto
    ultimately obtain j where "i < j" "j < n" "p ! j = CHR ''/''"
      using Suc.IH Suc.prems by auto
    then show ?thesis by auto
  qed
qed

lemma filepath_Ext_suffix: "\<exists>base. path = base @ filepath_Ext path"
proof -
  from Ext_loop_shape [of path "length path"]
  show ?thesis
  proof
    assume "Ext_loop path (length path) = []"
    then show ?thesis by (simp add: filepath_Ext_def)
  next
    assume "\<exists>i<length path. Ext_loop path (length path) = drop i path \<and> path ! i = CHR ''.'' \<and>
      (\<forall>j. i < j \<and> j < length path \<longrightarrow> path ! j \<noteq> CHR ''.'' \<and> path ! j \<noteq> CHR ''/'')"
    then obtain i where "filepath_Ext path = drop i path" by (auto simp: filepath_Ext_def)
    then have "path = take i path @ filepath_Ext path" by simp
    then show ?thesis ..
  qed
qed

lemma filepath_Ext_shape:
  "filepath_Ext path = [] \<or>
   (hd (filepath_Ext path) = CHR ''.'' \<and> CHR ''.'' \<notin> set (tl (filepath_Ext path)) \<and>
    CHR ''/'' \<notin> set (filepath_Ext path))"
proof -
  from Ext_loop_shape [of path "length path"]
  show ?thesis
  proof
    assume "Ext_loop path (length path) = []"
    then show ?thesis by (simp add: filepath_Ext_def)
  next
    assume "\<exists>i<length path. Ext_loop path (length path) = drop i path \<and> path ! i = CHR ''.'' \<and>
      (\<forall>j. i < j \<and> j < length path \<longrightarrow> path ! j \<noteq> CHR ''.'' \<and> path ! j \<noteq> CHR ''/'')"
    then obtain i where i: "i < length path" "filepath_Ext path = drop i path"
      "path ! i = CHR ''.''"
      "\<forall>j. i < j \<and> j < length path \<longrightarrow> path ! j \<noteq> CHR ''.'' \<and> path ! j \<noteq> CHR ''/''"
      by (auto simp: filepath_Ext_def)
    have d: "drop i path = path ! i # drop (Suc i) path"
      using i(1) by (simp add: Cons_nth_drop_Suc)
    have rest: "\<forall>c \<in> set (drop (Suc i) path). c \<noteq> CHR ''.'' \<and> c \<noteq> CHR ''/''"
    proof
      fix c assume "c \<in> set (drop (Suc i) path)"
      then obtain m where m: "m < length (drop (Suc i) path)" "drop (Suc i) path ! m = c"
        by (auto simp: in_set_conv_nth)
      then have "c = path ! (Suc i + m)" "Suc i + m < length path" by auto
      with i(4) show "c \<noteq> CHR ''.'' \<and> c \<noteq> CHR ''/''" by auto
    qed
    show ?thesis using i(2,3) d rest by auto
  qed
qed

lemma filepath_Ext_none:
  assumes "filepath_Ext path = []" and "path = base @ CHR ''.'' # rest"
  shows "CHR ''/'' \<in> set rest"
proof -
  have "length base < length path" "path ! length base = CHR ''.''"
    using assms(2) by auto
  with Ext_loop_empty [of path "length path" "length base"] assms(1)
  obtain j where j: "length base < j" "j < length path" "path ! j = CHR ''/''"
    by (auto simp: filepath_Ext_def)
  then have "rest ! (j - Suc (length base)) = CHR ''/''" "j - Suc (length base) < length rest"
    using assms(2) by (auto simp: nth_append nth_Cons')
  then show ?thesis by (metis nth_mem)
qed

lemma strings_TrimSuffix_append: "strings_TrimSuffix (base @ e) e = base"
  by (simp add: strings_TrimSuffix_def strings_HasSuffix_def)

lemma derived_certFilePath_Ext:
  assumes "flag_cert fl = []" and "flag_key fl = base @ filepath_Ext (flag_key fl)"
  shows "derived_certFilePath fl = base @ ''.crt''"
proof -
  have "strings_TrimSuffix (flag_key fl) (filepath_Ext (flag_key fl)) = base"
    using strings_TrimSuffix_append [of base "filepath_Ext (flag_key fl)"] assms(2) by simp
  then show ?thesis using assms(1) by (simp add: derived_certFilePath_def)
qed

section \<open>What each operation does when it succeeds\<close>

lemma NewCertificate_success:
  assumes "NewCertificate lib privKey cn orgs dns ips validFor isCA w = (Inr c, w')"
  shows "\<exists>pk k rnd' x.
           privKey = Some pk \<and> key pk = Some k \<and> 16 \<le> length (rand_Reader w) \<and>
           x509_CreateCertificate lib (drop 16 (rand_Reader w))
               (new_template (SetBytes (take 16 (rand_Reader w))) cn orgs (clock w) validFor
                  dns ips isCA)
               (new_template (SetBytes (take 16 (rand_Reader w))) cn orgs (clock w) validFor
                  dns ips isCA)
               (priv_PublicKey k) k = (Inr (derBytes c), rnd') \<and>
           x509_ParseCertificate lib (derBytes c) = Inr x \<and> cert c = Some x \<and>
           files w' = files w \<and> modes w' = modes w \<and> umask w' = umask w \<and>
           unwritable w' = unwritable w \<and> clock w' = clock w \<and>
           trace w' = trace w @ [Crypto OpRandInt, Crypto OpCreateCertificate,
                                 Crypto OpParseCertificate,
                                 Log Info ''Successfully created new certificate'']"
  using assms
  unfolding NewCertificate_def rand_Int_128 Let_def Key_def
  by (auto simp: time_Now_def emit_def slog_Error_def slog_Info_def
           split: if_splits option.splits sum.splits prod.splits)

lemma NewPrivateKey_success:
  assumes "NewPrivateKey lib w = (Inr p, w')"
  shows "\<exists>k rnd'. ecdsa_GenerateKey lib P256 (rand_Reader w) = (Inr k, rnd') \<and> key p = Some k \<and>
           files w' = files w \<and> modes w' = modes w \<and> umask w' = umask w \<and>
           unwritable w' = unwritable w \<and> clock w' = clock w \<and>
           trace w' = trace w @ [Crypto OpGenerateKey, Log Info ''Generated new private key'']"
  using assms
  unfolding NewPrivateKey_def Let_def
  by (auto simp: emit_def slog_Error_def slog_Info_def split: sum.splits prod.splits)

lemma PrivateKey_SaveToFile_success:
  assumes "PrivateKey_SaveToFile lib p filePath w = (Inr u, w')"
  shows "\<exists>pk k der. p = Some pk \<and> key pk = Some k \<and> x509_MarshalECPrivateKey lib k = Inr der \<and>
           filePath \<noteq> [] \<and> filePath \<notin> set (unwritable w) \<and>
           files w' = (files w)(filePath \<mapsto> der) \<and>
           modes w' = (if files w filePath = None
                       then (modes w)(filePath \<mapsto> octal [0, 6, 0, 0] AND NOT (umask w))
                       else modes w) \<and>
           umask w' = umask w \<and> unwritable w' = unwritable w \<and>
           clock w' = clock w \<and> rand_Reader w' = rand_Reader w \<and>
           trace w' = trace w @ [Crypto OpMarshalECPrivateKey,
                                 FileWrite filePath der (octal [0, 6, 0, 0]),
                                 Log Info ''Saved private key in DER format'']"
  using assms
  unfolding PrivateKey_SaveToFile_def os_WriteFile_def Let_def
  by (auto simp: emit_def slog_Error_def slog_Info_def
           split: if_splits option.splits sum.splits prod.splits)

lemma Certificate_SaveToFile_success:
  assumes "Certificate_SaveToFile c filePath w = (Inr u, w')"
  shows "\<exists>x der. c = Some x \<and> derBytes x = Some der \<and>
           filePath \<noteq> [] \<and> filePath \<notin> set (unwritable w) \<and>
           files w' = (files w)(filePath \<mapsto> der) \<and>
           modes w' = (if files w filePath = None
                       then (modes w)(filePath \<mapsto> octal [0, 6, 4, 4] AND NOT (umask w))
                       else modes w) \<and>
           umask w' = umask w \<and> unwritable w' = unwritable w \<and>
           clock w' = clock w \<and> rand_Reader w' = rand_Reader w \<and>
           trace w' = trace w @ [FileWrite filePath der (octal [0, 6, 4, 4]),
                                 Log Info ''Saved certificate in DER format'']"
  using assms
  unfolding Certificate_SaveToFile_def os_WriteFile_def Let_def
  by (auto simp: emit_def slog_Error_def slog_Info_def
           split: if_splits option.splits sum.splits prod.splits)

lemma main_cert_success:
  assumes "main_cert lib fl w = (0, w')"
  shows "\<exists>privKey w1 w2 c w4 w5.
           flag_key fl \<noteq> [] \<and>
           NewPrivateKey lib (slog_Info ''Generating new private key...'' w) = (Inr privKey, w1) \<and>
           PrivateKey_SaveToFile lib (Some privKey) (flag_key fl)
               (slog_Info ''Saving private key...'' w1) = (Inr (), w2) \<and>
           NewCertificate lib (Some privKey) (flag_cn fl) [flag_org fl] [] []
               (validFor_of_days (flag_days fl)) False
               (slog_Info ''Generating new certificate...''
                  (slog_Info ''Successfully saved private key'' w2)) = (Inr c, w4) \<and>
           Certificate_SaveToFile (Some c) (derived_certFilePath fl)
               (slog_Info ''Saving certificate...'' w4) = (Inr (), w5) \<and>
           w' = slog_Info ''Successfully generated and saved certificate'' w5"
  using assms
  unfolding main_cert_def Let_def
  by (auto split: if_splits sum.splits prod.splits)

section \<open>The small instance meets what is relied on\<close>

lemma toy_index_Some: "toy_index db x = Some i \<Longrightarrow> i < length db \<and> db ! i = x"
proof (induction db arbitrary: i)
  case Nil
  then show ?case by simp
next
  case (Cons y ys)
  then show ?case by (auto split: if_splits)
qed

lemma toy_parse_after_create:
  assumes "x509_CreateCertificate (toy_lib db) rnd t parent pub priv = (Inr der, rnd')"
    and "x509_ParseCertificate (toy_lib db) der = Inr c"
  shows "c = toy_parsed t parent pub"
proof -
  from assms(1) obtain i where i: "toy_index db (t, parent, pub) = Some i" "i < 256"
    "der = Some [of_nat i]"
    by (auto simp: toy_lib_def toy_CreateCertificate_def split: option.splits if_splits)
  from toy_index_Some [OF i(1)] have db: "i < length db" "db ! i = (t, parent, pub)" by simp_all
  have "unat (of_nat i :: byte) = i" using i(2) by (simp add: unat_of_nat)
  with assms(2) i(3) db show ?thesis
    by (simp add: toy_lib_def toy_ParseCertificate_def)
qed

lemma toy_keeps_names: "keeps_names (toy_lib db)"
  unfolding keeps_names_def
  by (auto dest!: toy_parse_after_create simp: toy_parsed_def toy_name_def)

lemma toy_keeps_times: "keeps_times (toy_lib db)"
  unfolding keeps_times_def
  by (auto dest!: toy_parse_after_create simp: toy_parsed_def)

lemma toy_keeps_usage: "keeps_usage (toy_lib db)"
  unfolding keeps_usage_def
  by (auto dest!: toy_parse_after_create simp: toy_parsed_def)

lemma toy_keeps_serial: "keeps_serial (toy_lib db)"
  unfolding keeps_serial_def
  by (auto dest!: toy_parse_after_create simp: toy_parsed_def)

lemma toy_rejects_nil: "rejects_nil (toy_lib db)"
  by (simp add: rejects_nil_def toy_lib_def toy_ParseCertificate_def)

lemma toy_key_roundtrip: "key_roundtrip (toy_lib db)"
  unfolding key_roundtrip_def
  by (auto simp: toy_lib_def toy_GenerateKey_def toy_MarshalECPrivateKey_def
                 toy_ParseECPrivateKey_def toy_key_def
           split: list.splits)

section \<open>The sample runs\<close>

lemma rand_Int_numeral:
  "rand_Int rnd 340282366920938463463374607431768211456 =
     (if length rnd < 16 then Some (Inl (Cause ''unexpected EOF''), [])
      else Some (Inr (SetBytes (take 16 rnd)), drop 16 rnd))"
  using rand_Int_128 [of rnd] by simp

lemmas demo_defs =
  demo_lib_def toy_lib_def demo_db_def demo_template_def demo_privKey_def demo_world_def
  demo_rand_def zero_rand_def demo_flags_def demo_parsed_def demo_certificate_def
  toy_CreateCertificate_def toy_ParseCertificate_def toy_GenerateKey_def
  toy_MarshalECPrivateKey_def toy_ParseECPrivateKey_def toy_key_def
  toy_parsed_def toy_name_def whole_seconds_def demo_clock_def
  two_org_template_def two_org_parsed_def late_template_def late_parsed_def late_world_def

lemmas run_defs =
  NewCertificate_def NewPrivateKey_def PrivateKey_SaveToFile_def Certificate_SaveToFile_def
  LoadPrivateKeyFromFile_def os_WriteFile_def os_ReadFile_def Key_def rand_Int_numeral SetBytes_def
  new_template_def template_literal_def zero_Certificate_def zero_Name_def time_Now_def
  time_Add_def emit_def slog_Info_def slog_Error_def Let_def
  KeyUsageDigitalSignature_def KeyUsageCertSign_def validFor_of_days_def time_Hour_def

lemma demo_NewCertificate:
  "fst (NewCertificate demo_lib (Some demo_privKey) ''example.com'' [''Example''] [] []
          (validFor_of_days 30) False (demo_world (tl demo_rand))) =
     Inr (demo_certificate 42 False 0)"
  by (simp add: demo_defs run_defs)

lemma demo_NewCertificate_CA:
  "fst (NewCertificate demo_lib (Some demo_privKey) ''example.com'' [''Example''] [] []
          (validFor_of_days 30) True (demo_world (tl demo_rand))) =
     Inr (demo_certificate 42 True 2)"
  by (simp add: demo_defs run_defs)

lemma demo_NewCertificate_zero:
  "fst (NewCertificate demo_lib (Some demo_privKey) ''example.com'' [''Example''] [] []
          (validFor_of_days 30) False (demo_world zero_rand)) =
     Inr (demo_certificate 0 False 1)"
  by (simp add: demo_defs run_defs)

lemma demo_NewCertificate_two_org:
  "fst (NewCertificate demo_lib (Some demo_privKey) ''example.com'' [''B'', ''A''] [] []
          (validFor_of_days 30) False (demo_world (tl demo_rand))) =
     Inr \<lparr>cert = Some two_org_parsed, derBytes = Some [3]\<rparr>"
  by (simp add: demo_defs run_defs)

lemma demo_NewCertificate_late:
  "fst (NewCertificate demo_lib (Some demo_privKey) ''example.com'' [''Example''] [] []
          500000000 False (late_world (tl demo_rand))) =
     Inr \<lparr>cert = Some late_parsed, derBytes = Some [4]\<rparr>"
  by (simp add: demo_defs run_defs)

lemma demo_main_cert:
  "fst (main_cert demo_lib demo_flags (demo_world demo_rand)) = 0"
  by (simp add: main_cert_def derived_certFilePath_def demo_defs run_defs)

section \<open>The validity duration of the generator\<close>

lemma sint_validFor_of_days:
  "sint (validFor_of_days d) = signed_take_bit 63 (sint d * (24 * 3600000000000))"
proof -
  have "validFor_of_days d = d * 86400000000000"
    by (simp add: validFor_of_days_def time_Hour_def)
  moreover have "sint (86400000000000 :: 64 word) = 86400000000000" by simp
  ultimately show ?thesis by (simp add: sint_word_ariths)
qed

lemma sint_validFor_of_days_exact:
  assumes "- 106751 \<le> sint d" and "sint d \<le> 106751"
  shows "sint (validFor_of_days d) = sint d * (24 * 3600000000000)"
proof -
  have "- (2 ^ 63) \<le> sint d * (24 * 3600000000000)" using assms(1) by simp
  moreover have "sint d * (24 * 3600000000000) < 2 ^ 63" using assms(2) by simp
  ultimately have "signed_take_bit 63 (sint d * (24 * 3600000000000)) =
                     sint d * (24 * 3600000000000)"
    by (simp add: signed_take_bit_int_eq_self)
  then show ?thesis by (simp only: sint_validFor_of_days)
qed

lemma whole_seconds_le: "whole_seconds t \<le> t \<and> t < whole_seconds t + 1000000000"
  by (simp add: whole_seconds_def)

lemma whole_seconds_add:
  assumes "d mod 1000000000 = 0"
  shows "whole_seconds (t + d) - whole_seconds t = d"
proof -
  have "(t + d) mod 1000000000 = t mod 1000000000"
    using assms by (metis add.right_neutral mod_add_right_eq)
  then show ?thesis by (simp add: whole_seconds_def)
qed

lemma validFor_of_days_whole_seconds:
  assumes "- 106751 \<le> sint d" and "sint d \<le> 106751"
  shows "sint (validFor_of_days d) mod 1000000000 = 0"
proof -
  have "sint d * (24 * 3600000000000) = (sint d * 86400) * 1000000000" by simp
  then show ?thesis
    by (simp only: sint_validFor_of_days_exact [OF assms] mod_mult_self2_is_0)
qed

section \<open>A successful run of the key and certificate generator\<close>

lemma main_cert_run:
  assumes "main_cert lib fl w = (0, w')"
  shows "\<exists>k rndk keyDer c certDer u u'.
           flag_key fl \<noteq> [] \<and> derived_certFilePath fl \<noteq> [] \<and>
           ecdsa_GenerateKey lib P256 (rand_Reader w) = (Inr k, rndk) \<and>
           x509_MarshalECPrivateKey lib k = Inr keyDer \<and>
           NewCertificate lib (Some \<lparr>key = Some k\<rparr>) (flag_cn fl) [flag_org fl] [] []
               (validFor_of_days (flag_days fl)) False u = (Inr c, u') \<and>
           derBytes c = Some certDer \<and>
           files w' = (files w)(flag_key fl \<mapsto> keyDer, derived_certFilePath fl \<mapsto> certDer) \<and>
           trace w' = trace w @
             [Log Info ''Generating new private key...'', Crypto OpGenerateKey,
              Log Info ''Generated new private key'', Log Info ''Saving private key...'',
              Crypto OpMarshalECPrivateKey,
              FileWrite (flag_key fl) keyDer (octal [0, 6, 0, 0]),
              Log Info ''Saved private key in DER format'',
              Log Info ''Successfully saved private key'',
              Log Info ''Generating new certificate...'', Crypto OpRandInt,
              Crypto OpCreateCertificate, Crypto OpParseCertificate,
              Log Info ''Successfully created new certificate'',
              Log Info ''Saving certificate...'',
              FileWrite (derived_certFilePath fl) certDer (octal [0, 6, 4, 4]),
              Log Info ''Saved certificate in DER format'',
              Log Info ''Successfully generated and saved certificate'']"
proof -
  from main_cert_success [OF assms] obtain privKey w1 w2 c w4 w5 where
    nonempty: "flag_key fl \<noteq> []"
    and gen: "NewPrivateKey lib (slog_Info ''Generating new private key...'' w) = (Inr privKey, w1)"
    and save: "PrivateKey_SaveToFile lib (Some privKey) (flag_key fl)
                 (slog_Info ''Saving private key...'' w1) = (Inr (), w2)"
    and new: "NewCertificate lib (Some privKey) (flag_cn fl) [flag_org fl] [] []
                (validFor_of_days (flag_days fl)) False
                (slog_Info ''Generating new certificate...''
                   (slog_Info ''Successfully saved private key'' w2)) = (Inr c, w4)"
    and savec: "Certificate_SaveToFile (Some c) (derived_certFilePath fl)
                  (slog_Info ''Saving certificate...'' w4) = (Inr (), w5)"
    and fin: "w' = slog_Info ''Successfully generated and saved certificate'' w5"
    by blast
  from NewPrivateKey_success [OF gen] obtain k rndk where
    k: "ecdsa_GenerateKey lib P256 (rand_Reader w) = (Inr k, rndk)" "key privKey = Some k"
    and f1: "files w1 = files w"
    and t1: "trace w1 = trace w @ [Log Info ''Generating new private key...'',
                                   Crypto OpGenerateKey, Log Info ''Generated new private key'']"
    by (auto simp: slog_Info_def emit_def)
  have pk: "privKey = \<lparr>key = Some k\<rparr>" using k(2) by (cases privKey) simp
  from PrivateKey_SaveToFile_success [OF save] k(2) obtain keyDer where
    m: "x509_MarshalECPrivateKey lib k = Inr keyDer"
    and f2: "files w2 = (files w1)(flag_key fl \<mapsto> keyDer)"
    and t2: "trace w2 = trace w1 @ [Log Info ''Saving private key...'',
               Crypto OpMarshalECPrivateKey, FileWrite (flag_key fl) keyDer (octal [0, 6, 0, 0]),
               Log Info ''Saved private key in DER format'']"
    by (auto simp: slog_Info_def emit_def)
  from NewCertificate_success [OF new] have
    f4: "files w4 = files w2"
    and t4: "trace w4 = trace w2 @ [Log Info ''Successfully saved private key'',
               Log Info ''Generating new certificate...'', Crypto OpRandInt,
               Crypto OpCreateCertificate, Crypto OpParseCertificate,
               Log Info ''Successfully created new certificate'']"
    by (auto simp: slog_Info_def emit_def)
  from Certificate_SaveToFile_success [OF savec] obtain certDer where
    d: "derBytes c = Some certDer" and ne: "derived_certFilePath fl \<noteq> []"
    and f5: "files w5 = (files w4)(derived_certFilePath fl \<mapsto> certDer)"
    and t5: "trace w5 = trace w4 @ [Log Info ''Saving certificate...'',
               FileWrite (derived_certFilePath fl) certDer (octal [0, 6, 4, 4]),
               Log Info ''Saved certificate in DER format'']"
    by (auto simp: slog_Info_def emit_def)
  have files: "files w' = (files w)(flag_key fl \<mapsto> keyDer, derived_certFilePath fl \<mapsto> certDer)"
    using fin f1 f2 f4 f5 by (simp add: slog_Info_def emit_def)
  have trace: "trace w' = trace w @
             [Log Info ''Generating new private key...'', Crypto OpGenerateKey,
              Log Info ''Generated new private key'', Log Info ''Saving private key...'',
              Crypto OpMarshalECPrivateKey,
              FileWrite (flag_key fl) keyDer (octal [0, 6, 0, 0]),
              Log Info ''Saved private key in DER format'',
              Log Info ''Successfully saved private key'',
              Log Info ''Generating new certificate...'', Crypto OpRandInt,
              Crypto OpCreateCertificate, Crypto OpParseCertificate,
              Log Info ''Successfully created new certificate'',
              Log Info ''Saving certificate...'',
              FileWrite (derived_certFilePath fl) certDer (octal [0, 6, 4, 4]),
              Log Info ''Saved certificate in DER format'',
              Log Info ''Successfully generated and saved certificate'']"
    using fin t1 t2 t4 t5 by (simp add: slog_Info_def emit_def)
  from nonempty ne k(1) m new [unfolded pk] d files trace show ?thesis by blast
qed

section \<open>The permission bits of the writes\<close>



lemma octal_0600: "octal [0, 6, 0, 0] = 384"
  by (simp add: octal_def)

lemma octal_0644: "octal [0, 6, 4, 4] = 420"
  by (simp add: octal_def)

section \<open>The sample run with a key path ending in .crt\<close>

lemma demo_main_cert_crt:
  "fst (main_cert demo_lib (demo_flags\<lparr>flag_key := ''k.crt''\<rparr>) (demo_world demo_rand)) = 0"
  by (simp add: main_cert_def derived_certFilePath_def filepath_Ext_def
                strings_TrimSuffix_def strings_HasSuffix_def demo_defs run_defs)

section \<open>The claims\<close>

text \<open>
  Claim C1. Every certificate that \<open>NewCertificate\<close> returns is self-signed. The call
  that created its DER bytes was given one and the same template as template and as
  parent, the public component of the supplied private key as public key, and that
  private key as signer; the subject of the template is the common name and the
  organizations passed in. Where the library gives names and key back as the standard
  library does (\<open>keeps_names\<close>), the issuer of the returned certificate equals its
  subject, which has the common name and, in some order, the organizations passed in,
  and its public key is the public component of the private key.
\<close>

theorem NewCertificate_self_signed:
  assumes "NewCertificate lib privKey cn orgs dns ips validFor isCA w = (Inr c, w')"
  shows "\<exists>pk k serialNumber t rnd rnd' x.
           privKey = Some pk \<and> key pk = Some k \<and>
           t = new_template serialNumber cn orgs (time_Now w) validFor dns ips isCA \<and>
           x509_CreateCertificate lib rnd t t (priv_PublicKey k) k = (Inr (derBytes c), rnd') \<and>
           Subject t = \<lparr>CommonName = cn, Organization = orgs\<rparr> \<and>
           cert c = Some x \<and> x509_ParseCertificate lib (derBytes c) = Inr x \<and>
           (keeps_names lib \<longrightarrow>
              Issuer x = Subject x \<and>
              CommonName (Subject x) = cn \<and> mset (Organization (Subject x)) = mset orgs \<and>
              PublicKey x = Some (priv_PublicKey k))"
proof -
  define t where
    "t = new_template (SetBytes (take 16 (rand_Reader w))) cn orgs (time_Now w) validFor
           dns ips isCA"
  from NewCertificate_success [OF assms] obtain pk k rnd' x where
    h: "privKey = Some pk" "key pk = Some k"
       "x509_CreateCertificate lib (drop 16 (rand_Reader w)) t t (priv_PublicKey k) k =
          (Inr (derBytes c), rnd')"
       "x509_ParseCertificate lib (derBytes c) = Inr x" "cert c = Some x"
    unfolding t_def time_Now_def by blast
  have subj: "Subject t = \<lparr>CommonName = cn, Organization = orgs\<rparr>"
    by (simp add: t_def new_template_def template_literal_def Let_def)
  have kept: "keeps_names lib \<longrightarrow>
          Issuer x = Subject x \<and>
          CommonName (Subject x) = cn \<and> mset (Organization (Subject x)) = mset orgs \<and>
          PublicKey x = Some (priv_PublicKey k)"
  proof
    assume "keeps_names lib"
    with h(3,4) have
      "CommonName (Subject x) = CommonName (Subject t) \<and>
       mset (Organization (Subject x)) = mset (Organization (Subject t)) \<and>
       (Subject t = Subject t \<longrightarrow> Issuer x = Subject x) \<and>
       PublicKey x = Some (priv_PublicKey k)"
      unfolding keeps_names_def by blast
    with subj show
      "Issuer x = Subject x \<and>
       CommonName (Subject x) = cn \<and> mset (Organization (Subject x)) = mset orgs \<and>
       PublicKey x = Some (priv_PublicKey k)" by simp
  qed
  from h subj kept t_def have
    "privKey = Some pk \<and> key pk = Some k \<and>
     t = new_template (SetBytes (take 16 (rand_Reader w))) cn orgs (time_Now w) validFor
           dns ips isCA \<and>
     x509_CreateCertificate lib (drop 16 (rand_Reader w)) t t (priv_PublicKey k) k =
       (Inr (derBytes c), rnd') \<and>
     Subject t = \<lparr>CommonName = cn, Organization = orgs\<rparr> \<and>
     cert c = Some x \<and> x509_ParseCertificate lib (derBytes c) = Inr x \<and>
     (keeps_names lib \<longrightarrow>
        Issuer x = Subject x \<and>
        CommonName (Subject x) = cn \<and> mset (Organization (Subject x)) = mset orgs \<and>
        PublicKey x = Some (priv_PublicKey k))" by blast
  then show ?thesis by (intro exI) assumption
qed

text \<open>
  A sample call with the organizations B and A: the certificate comes back with A and B,
  issuer and subject alike.
\<close>

theorem NewCertificate_self_signed_witness:
  "fst (NewCertificate demo_lib (Some demo_privKey) ''example.com'' [''B'', ''A''] [] []
          (validFor_of_days 30) False (demo_world (tl demo_rand))) =
     Inr \<lparr>cert = Some two_org_parsed, derBytes = Some [3]\<rparr> \<and>
   keeps_names demo_lib \<and>
   Issuer two_org_parsed = Subject two_org_parsed \<and>
   CommonName (Subject two_org_parsed) = ''example.com'' \<and>
   Organization (Subject two_org_parsed) = [''A'', ''B''] \<and>
   mset (Organization (Subject two_org_parsed)) = mset [''B'', ''A''] \<and>
   PublicKey two_org_parsed = Some (priv_PublicKey (toy_key P256 5))"
proof -
  let ?run = "NewCertificate demo_lib (Some demo_privKey) ''example.com'' [''B'', ''A''] [] []
                (validFor_of_days 30) False (demo_world (tl demo_rand))"
  have run: "?run = (Inr \<lparr>cert = Some two_org_parsed, derBytes = Some [3]\<rparr>, snd ?run)"
    using demo_NewCertificate_two_org by (metis prod.collapse)
  have names: "keeps_names demo_lib"
    unfolding demo_lib_def by (rule toy_keeps_names)
  from NewCertificate_self_signed [OF run] names
  have "Issuer two_org_parsed = Subject two_org_parsed \<and>
        CommonName (Subject two_org_parsed) = ''example.com'' \<and>
        mset (Organization (Subject two_org_parsed)) = mset [''B'', ''A''] \<and>
        PublicKey two_org_parsed = Some (priv_PublicKey (toy_key P256 5))"
    by (auto simp: demo_privKey_def)
  moreover have "Organization (Subject two_org_parsed) = [''A'', ''B'']"
    by (simp add: two_org_parsed_def toy_parsed_def toy_name_def two_org_template_def
                  new_template_def template_literal_def Let_def)
  ultimately show ?thesis
    using demo_NewCertificate_two_org names by blast
qed

text \<open>
  Claim C2, as amended. A successful call of \<open>NewCertificate\<close> with duration
  \<open>validFor\<close> signs a template whose not-before is the clock reading taken during the
  call and whose not-after is that reading plus \<open>validFor\<close>. The certificate it returns
  carries the two times in whole seconds (\<open>keeps_times\<close>, as the standard library has
  it): its not-before is the clock reading less the part of it below the second, its
  not-after is the reading plus \<open>validFor\<close>, cut likewise, and not-after minus not-before
  is \<open>validFor\<close> exactly whenever \<open>validFor\<close> is a whole number of seconds. The key and
  certificate generator, when it succeeds, has called \<open>NewCertificate\<close> with \<open>validFor\<close>
  the product of the \<open>-days\<close> value, 24 and \<open>time.Hour\<close> in signed 64-bit arithmetic:
  the exact product wrapped to 64 bits, which is the \<open>-days\<close> value times 24 hours, a
  whole number of seconds, whenever that value lies between -106751 and 106751.
\<close>

theorem NewCertificate_validity:
  "(NewCertificate lib privKey cn orgs dns ips validFor isCA w = (Inr c, w') \<longrightarrow>
      (\<exists>k serialNumber t rnd rnd' x.
          t = new_template serialNumber cn orgs (time_Now w) validFor dns ips isCA \<and>
          x509_CreateCertificate lib rnd t t (priv_PublicKey k) k = (Inr (derBytes c), rnd') \<and>
          cert c = Some x \<and> x509_ParseCertificate lib (derBytes c) = Inr x \<and>
          NotBefore t = time_Now w \<and> NotAfter t = time_Now w + sint validFor \<and>
          NotAfter t - NotBefore t = sint validFor \<and>
          (keeps_times lib \<longrightarrow>
             NotBefore x = whole_seconds (time_Now w) \<and>
             NotAfter x = whole_seconds (time_Now w + sint validFor) \<and>
             NotBefore x \<le> time_Now w \<and> time_Now w < NotBefore x + 1000000000 \<and>
             (sint validFor mod 1000000000 = 0 \<longrightarrow>
                NotAfter x - NotBefore x = sint validFor)))) \<and>
   (main_cert lib fl v = (0, v') \<longrightarrow>
      (\<exists>privKey c' u u'.
          NewCertificate lib (Some privKey) (flag_cn fl) [flag_org fl] [] []
            (validFor_of_days (flag_days fl)) False u = (Inr c', u'))) \<and>
   sint (validFor_of_days d) = signed_take_bit 63 (sint d * (24 * 3600000000000)) \<and>
   (- 106751 \<le> sint d \<and> sint d \<le> 106751 \<longrightarrow>
      sint (validFor_of_days d) = sint d * (24 * 3600000000000) \<and>
      sint (validFor_of_days d) mod 1000000000 = 0)"
proof (intro conjI impI)
  assume run: "NewCertificate lib privKey cn orgs dns ips validFor isCA w = (Inr c, w')"
  define t where
    "t = new_template (SetBytes (take 16 (rand_Reader w))) cn orgs (time_Now w) validFor
           dns ips isCA"
  from NewCertificate_success [OF run] obtain k rnd' x where
    h: "x509_CreateCertificate lib (drop 16 (rand_Reader w)) t t (priv_PublicKey k) k =
          (Inr (derBytes c), rnd')"
       "x509_ParseCertificate lib (derBytes c) = Inr x" "cert c = Some x"
    unfolding t_def time_Now_def by blast
  have nb: "NotBefore t = time_Now w"
    by (simp add: t_def new_template_def template_literal_def Let_def)
  have na: "NotAfter t = time_Now w + sint validFor"
    by (simp add: t_def new_template_def template_literal_def Let_def time_Add_def)
  from nb na have diff: "NotAfter t - NotBefore t = sint validFor" by simp
  have kept: "keeps_times lib \<longrightarrow>
             NotBefore x = whole_seconds (time_Now w) \<and>
             NotAfter x = whole_seconds (time_Now w + sint validFor) \<and>
             NotBefore x \<le> time_Now w \<and> time_Now w < NotBefore x + 1000000000 \<and>
             (sint validFor mod 1000000000 = 0 \<longrightarrow>
                NotAfter x - NotBefore x = sint validFor)"
  proof
    assume "keeps_times lib"
    with h(1,2) have "NotBefore x = whole_seconds (NotBefore t) \<and>
                      NotAfter x = whole_seconds (NotAfter t)"
      unfolding keeps_times_def by blast
    with nb na have x: "NotBefore x = whole_seconds (time_Now w)"
      "NotAfter x = whole_seconds (time_Now w + sint validFor)" by simp_all
    have "sint validFor mod 1000000000 = 0 \<longrightarrow> NotAfter x - NotBefore x = sint validFor"
      using x by (simp add: whole_seconds_add)
    with x whole_seconds_le [of "time_Now w"] show
      "NotBefore x = whole_seconds (time_Now w) \<and>
       NotAfter x = whole_seconds (time_Now w + sint validFor) \<and>
       NotBefore x \<le> time_Now w \<and> time_Now w < NotBefore x + 1000000000 \<and>
       (sint validFor mod 1000000000 = 0 \<longrightarrow>
          NotAfter x - NotBefore x = sint validFor)" by simp
  qed
  from t_def h nb na diff kept have
    "t = new_template (SetBytes (take 16 (rand_Reader w))) cn orgs (time_Now w) validFor
           dns ips isCA \<and>
     x509_CreateCertificate lib (drop 16 (rand_Reader w)) t t (priv_PublicKey k) k =
       (Inr (derBytes c), rnd') \<and>
     cert c = Some x \<and> x509_ParseCertificate lib (derBytes c) = Inr x \<and>
     NotBefore t = time_Now w \<and> NotAfter t = time_Now w + sint validFor \<and>
     NotAfter t - NotBefore t = sint validFor \<and>
     (keeps_times lib \<longrightarrow>
        NotBefore x = whole_seconds (time_Now w) \<and>
        NotAfter x = whole_seconds (time_Now w + sint validFor) \<and>
        NotBefore x \<le> time_Now w \<and> time_Now w < NotBefore x + 1000000000 \<and>
        (sint validFor mod 1000000000 = 0 \<longrightarrow>
           NotAfter x - NotBefore x = sint validFor))" by blast
  then show
    "\<exists>k serialNumber t rnd rnd' x.
        t = new_template serialNumber cn orgs (time_Now w) validFor dns ips isCA \<and>
        x509_CreateCertificate lib rnd t t (priv_PublicKey k) k = (Inr (derBytes c), rnd') \<and>
        cert c = Some x \<and> x509_ParseCertificate lib (derBytes c) = Inr x \<and>
        NotBefore t = time_Now w \<and> NotAfter t = time_Now w + sint validFor \<and>
        NotAfter t - NotBefore t = sint validFor \<and>
        (keeps_times lib \<longrightarrow>
           NotBefore x = whole_seconds (time_Now w) \<and>
           NotAfter x = whole_seconds (time_Now w + sint validFor) \<and>
           NotBefore x \<le> time_Now w \<and> time_Now w < NotBefore x + 1000000000 \<and>
           (sint validFor mod 1000000000 = 0 \<longrightarrow>
              NotAfter x - NotBefore x = sint validFor))" by (intro exI) assumption
next
  assume "main_cert lib fl v = (0, v')"
  from main_cert_success [OF this] show
    "\<exists>privKey c' u u'.
        NewCertificate lib (Some privKey) (flag_cn fl) [flag_org fl] [] []
          (validFor_of_days (flag_days fl)) False u = (Inr c', u')" by blast
next
  show "sint (validFor_of_days d) = signed_take_bit 63 (sint d * (24 * 3600000000000))"
    by (rule sint_validFor_of_days)
next
  assume "- 106751 \<le> sint d \<and> sint d \<le> 106751"
  then show "sint (validFor_of_days d) = sint d * (24 * 3600000000000)"
    by (simp add: sint_validFor_of_days_exact)
next
  assume "- 106751 \<le> sint d \<and> sint d \<le> 106751"
  then show "sint (validFor_of_days d) mod 1000000000 = 0"
    by (simp add: validFor_of_days_whole_seconds)
qed

text \<open>
  The sample run: thirty days are 2592000 seconds, to the nanosecond, in the template and
  in the certificate returned.
\<close>

theorem NewCertificate_validity_witness:
  "fst (NewCertificate demo_lib (Some demo_privKey) ''example.com'' [''Example''] [] []
          (validFor_of_days 30) False (demo_world (tl demo_rand))) =
     Inr (demo_certificate 42 False 0) \<and>
   fst (main_cert demo_lib demo_flags (demo_world demo_rand)) = 0 \<and>
   keeps_times demo_lib \<and>
   - 106751 \<le> sint (30 :: 64 word) \<and> sint (30 :: 64 word) \<le> 106751 \<and>
   sint (validFor_of_days 30) = 2592000000000000 \<and>
   sint (validFor_of_days 30) mod 1000000000 = 0 \<and>
   NotBefore (demo_parsed 42 False) = demo_clock \<and>
   NotAfter (demo_parsed 42 False) - NotBefore (demo_parsed 42 False) = 2592000000000000 \<and>
   (\<exists>k t rnd rnd'.
      x509_CreateCertificate demo_lib rnd t t (priv_PublicKey k) k = (Inr (Some [0]), rnd') \<and>
      NotBefore t = demo_clock \<and> NotAfter t - NotBefore t = 2592000000000000) \<and>
   (\<exists>privKey c' u u'.
      NewCertificate demo_lib (Some privKey) ''example.com'' [''Example''] [] []
        (validFor_of_days 30) False u = (Inr c', u'))"
proof -
  let ?run = "NewCertificate demo_lib (Some demo_privKey) ''example.com'' [''Example''] [] []
                (validFor_of_days 30) False (demo_world (tl demo_rand))"
  let ?main = "main_cert demo_lib demo_flags (demo_world demo_rand)"
  have run: "?run = (Inr (demo_certificate 42 False 0), snd ?run)"
    using demo_NewCertificate by (metis prod.collapse)
  have main: "?main = (0, snd ?main)"
    using demo_main_cert by (metis prod.collapse)
  have times: "keeps_times demo_lib"
    unfolding demo_lib_def by (rule toy_keeps_times)
  have days: "- 106751 \<le> sint (30 :: 64 word) \<and> sint (30 :: 64 word) \<le> 106751" by simp
  have fl: "flag_cn demo_flags = ''example.com''" "flag_org demo_flags = ''Example''"
    "flag_days demo_flags = 30" by (simp_all add: demo_flags_def)
  have now: "time_Now (demo_world (tl demo_rand)) = demo_clock"
    by (simp add: time_Now_def demo_world_def)
  have whole: "whole_seconds demo_clock = demo_clock"
    by (simp add: whole_seconds_def demo_clock_def)
  have der: "derBytes (demo_certificate 42 False 0) = Some [0]"
    "cert (demo_certificate 42 False 0) = Some (demo_parsed 42 False)"
    by (simp_all add: demo_certificate_def)
  note inst = NewCertificate_validity
         [of demo_lib "Some demo_privKey" "''example.com''" "[''Example'']" "[]" "[]"
             "validFor_of_days 30" False "demo_world (tl demo_rand)"
             "demo_certificate 42 False 0" "snd ?run" demo_flags "demo_world demo_rand"
             "snd ?main" 30]
  from inst days
  have "sint (validFor_of_days 30) = sint (30 :: 64 word) * (24 * 3600000000000)"
    and sec: "sint (validFor_of_days 30) mod 1000000000 = 0" by blast+
  then have v: "sint (validFor_of_days 30) = 2592000000000000" by simp
  from inst run times sec obtain k t rnd rnd' x where
    "x509_CreateCertificate demo_lib rnd t t (priv_PublicKey k) k =
       (Inr (derBytes (demo_certificate 42 False 0)), rnd')"
    "NotBefore t = time_Now (demo_world (tl demo_rand))"
    "NotAfter t - NotBefore t = sint (validFor_of_days 30)"
    and x: "cert (demo_certificate 42 False 0) = Some x"
    "NotBefore x = whole_seconds (time_Now (demo_world (tl demo_rand)))"
    "NotAfter x - NotBefore x = sint (validFor_of_days 30)" by blast
  with v now der have
    "x509_CreateCertificate demo_lib rnd t t (priv_PublicKey k) k = (Inr (Some [0]), rnd') \<and>
     NotBefore t = demo_clock \<and> NotAfter t - NotBefore t = 2592000000000000" by simp
  then have signed: "\<exists>k t rnd rnd'.
      x509_CreateCertificate demo_lib rnd t t (priv_PublicKey k) k = (Inr (Some [0]), rnd') \<and>
      NotBefore t = demo_clock \<and> NotAfter t - NotBefore t = 2592000000000000"
    by (intro exI) assumption
  from x der(2) v now whole have parsed:
    "NotBefore (demo_parsed 42 False) = demo_clock"
    "NotAfter (demo_parsed 42 False) - NotBefore (demo_parsed 42 False) = 2592000000000000"
    by simp_all
  from inst main have "\<exists>privKey c' u u'.
      NewCertificate demo_lib (Some privKey) (flag_cn demo_flags) [flag_org demo_flags] [] []
        (validFor_of_days (flag_days demo_flags)) False u = (Inr c', u')" by blast
  then have called: "\<exists>privKey c' u u'.
      NewCertificate demo_lib (Some privKey) ''example.com'' [''Example''] [] []
        (validFor_of_days 30) False u = (Inr c', u')" by (simp only: fl)
  from times days v sec parsed signed called show ?thesis
    using demo_NewCertificate demo_main_cert by blast
qed

text \<open>
  The claim as stated fails in two ways. For \<open>-days 106752\<close> the product leaves the range
  of a duration and wraps to a negative number of nanoseconds. And with a clock reading
  one nanosecond past the second and a validity of half a second, the certificate returned
  has a not-before that is not the reading, a not-after that is not the reading plus the
  validity, and no time at all between the two.
\<close>

theorem certificate_validity_counterexample:
  "sint (106752 :: 64 word) = 106752 \<and>
   sint (validFor_of_days 106752) = - 9223371273709551616 \<and>
   sint (validFor_of_days 106752) \<noteq> 106752 * (24 * 3600000000000) \<and>
   fst (NewCertificate demo_lib (Some demo_privKey) ''example.com'' [''Example''] [] []
          500000000 False (late_world (tl demo_rand))) =
     Inr \<lparr>cert = Some late_parsed, derBytes = Some [4]\<rparr> \<and>
   time_Now (late_world (tl demo_rand)) = demo_clock + 1 \<and>
   sint (500000000 :: 64 word) = 500000000 \<and>
   NotBefore late_parsed = demo_clock \<and>
   NotAfter late_parsed = demo_clock \<and>
   NotBefore late_parsed \<noteq> time_Now (late_world (tl demo_rand)) \<and>
   NotAfter late_parsed \<noteq> time_Now (late_world (tl demo_rand)) + sint (500000000 :: 64 word) \<and>
   NotAfter late_parsed - NotBefore late_parsed \<noteq> sint (500000000 :: 64 word)"
proof -
  have overflow:
    "sint (106752 :: 64 word) = 106752 \<and>
     sint (validFor_of_days 106752) = - 9223371273709551616 \<and>
     sint (validFor_of_days 106752) \<noteq> 106752 * (24 * 3600000000000)"
    by (simp add: validFor_of_days_def time_Hour_def)
  have now: "time_Now (late_world (tl demo_rand)) = demo_clock + 1"
    by (simp add: time_Now_def late_world_def demo_world_def)
  have d: "sint (500000000 :: 64 word) = 500000000" by simp
  have nb: "NotBefore late_parsed = demo_clock"
    by (simp add: late_parsed_def toy_parsed_def late_template_def new_template_def
                  template_literal_def Let_def whole_seconds_def demo_clock_def)
  have na: "NotAfter late_parsed = demo_clock"
    by (simp add: late_parsed_def toy_parsed_def late_template_def new_template_def
                  template_literal_def Let_def time_Add_def whole_seconds_def demo_clock_def)
  from overflow now d nb na show ?thesis
    using demo_NewCertificate_late by simp
qed

text \<open>
  Claim C3, as amended. In a successful call of \<open>NewCertificate\<close> the serial number of
  the template is the big-endian value of the sixteen bytes read from the random source:
  an integer that is at least 0 (zero is possible) and below \<open>2^128\<close>, and that the
  returned certificate carries where the library gives the serial number back
  (\<open>keeps_serial\<close>). Every value of that range is the value of exactly one string of
  sixteen bytes, so the draw is uniform when the bytes are. When \<open>rand.Int\<close> returns an
  error, \<open>NewCertificate\<close> returns that error wrapped as a serial number error, and no
  certificate.
\<close>

theorem NewCertificate_serial:
  "(NewCertificate lib privKey cn orgs dns ips validFor isCA w = (Inr c, w') \<longrightarrow>
      (\<exists>k serialNumber t rnd rnd' x.
          t = new_template serialNumber cn orgs (time_Now w) validFor dns ips isCA \<and>
          x509_CreateCertificate lib rnd t t (priv_PublicKey k) k = (Inr (derBytes c), rnd') \<and>
          cert c = Some x \<and> x509_ParseCertificate lib (derBytes c) = Inr x \<and>
          16 \<le> length (rand_Reader w) \<and>
          SerialNumber t = serialNumber \<and>
          serialNumber = SetBytes (take 16 (rand_Reader w)) \<and>
          0 \<le> SerialNumber t \<and> SerialNumber t < 2 ^ 128 \<and>
          (keeps_serial lib \<longrightarrow> SerialNumber x = SerialNumber t))) \<and>
   (rand_Int (rand_Reader w) (push_bit 128 1) = Some (Inl e, rnd1) \<longrightarrow>
      fst (NewCertificate lib privKey cn orgs dns ips validFor isCA w) =
        Inl (SerialNumberError e)) \<and>
   bij_betw SetBytes {bs. length bs = 16} {0 ..< 2 ^ 128}"
proof (intro conjI impI)
  assume run: "NewCertificate lib privKey cn orgs dns ips validFor isCA w = (Inr c, w')"
  define t where
    "t = new_template (SetBytes (take 16 (rand_Reader w))) cn orgs (time_Now w) validFor
           dns ips isCA"
  from NewCertificate_success [OF run] obtain k rnd' x where
    h: "x509_CreateCertificate lib (drop 16 (rand_Reader w)) t t (priv_PublicKey k) k =
          (Inr (derBytes c), rnd')"
       "x509_ParseCertificate lib (derBytes c) = Inr x" "cert c = Some x"
       "16 \<le> length (rand_Reader w)"
    unfolding t_def time_Now_def by blast
  have sn: "SerialNumber t = SetBytes (take 16 (rand_Reader w))"
    by (simp add: t_def new_template_def template_literal_def Let_def)
  have lo: "0 \<le> SerialNumber t" unfolding sn by (rule SetBytes_nonneg)
  have "SetBytes (take 16 (rand_Reader w)) < 256 ^ length (take 16 (rand_Reader w))"
    by (rule SetBytes_less)
  moreover have "length (take 16 (rand_Reader w)) = 16" using h(4) by simp
  moreover have "(256 :: int) ^ 16 = 2 ^ 128" by simp
  ultimately have hi: "SerialNumber t < 2 ^ 128" unfolding sn by simp
  have "keeps_serial lib \<longrightarrow> SerialNumber x = SerialNumber t"
    using h(1,2) unfolding keeps_serial_def by blast
  with t_def h sn lo hi have
    "t = new_template (SetBytes (take 16 (rand_Reader w))) cn orgs (time_Now w) validFor
           dns ips isCA \<and>
     x509_CreateCertificate lib (drop 16 (rand_Reader w)) t t (priv_PublicKey k) k =
       (Inr (derBytes c), rnd') \<and>
     cert c = Some x \<and> x509_ParseCertificate lib (derBytes c) = Inr x \<and>
     16 \<le> length (rand_Reader w) \<and>
     SerialNumber t = SetBytes (take 16 (rand_Reader w)) \<and>
     SetBytes (take 16 (rand_Reader w)) = SetBytes (take 16 (rand_Reader w)) \<and>
     0 \<le> SerialNumber t \<and> SerialNumber t < 2 ^ 128 \<and>
     (keeps_serial lib \<longrightarrow> SerialNumber x = SerialNumber t)" by blast
  then show
    "\<exists>k serialNumber t rnd rnd' x.
        t = new_template serialNumber cn orgs (time_Now w) validFor dns ips isCA \<and>
        x509_CreateCertificate lib rnd t t (priv_PublicKey k) k = (Inr (derBytes c), rnd') \<and>
        cert c = Some x \<and> x509_ParseCertificate lib (derBytes c) = Inr x \<and>
        16 \<le> length (rand_Reader w) \<and>
        SerialNumber t = serialNumber \<and>
        serialNumber = SetBytes (take 16 (rand_Reader w)) \<and>
        0 \<le> SerialNumber t \<and> SerialNumber t < 2 ^ 128 \<and>
        (keeps_serial lib \<longrightarrow> SerialNumber x = SerialNumber t)" by (intro exI) assumption
next
  assume "rand_Int (rand_Reader w) (push_bit 128 1) = Some (Inl e, rnd1)"
  then show "fst (NewCertificate lib privKey cn orgs dns ips validFor isCA w) =
               Inl (SerialNumberError e)"
    by (simp add: NewCertificate_def Let_def)
next
  show "bij_betw SetBytes {bs. length bs = 16} {0 ..< 2 ^ 128}" by (rule SetBytes_bij)
qed

text \<open>
  The sample call draws the serial number 42; on a random source that holds three bytes
  only, the draw fails and so does the call.
\<close>

theorem NewCertificate_serial_witness:
  "fst (NewCertificate demo_lib (Some demo_privKey) ''example.com'' [''Example''] [] []
          (validFor_of_days 30) False (demo_world (tl demo_rand))) =
     Inr (demo_certificate 42 False 0) \<and>
   keeps_serial demo_lib \<and>
   SerialNumber (demo_parsed 42 False) = SetBytes (take 16 (tl demo_rand)) \<and>
   SerialNumber (demo_parsed 42 False) = 42 \<and>
   rand_Int (rand_Reader (demo_world [1, 2, 3])) (push_bit 128 1) =
     Some (Inl (Cause ''unexpected EOF''), []) \<and>
   fst (NewCertificate demo_lib (Some demo_privKey) ''example.com'' [''Example''] [] []
          (validFor_of_days 30) False (demo_world [1, 2, 3])) =
     Inl (SerialNumberError (Cause ''unexpected EOF''))"
proof -
  let ?run = "NewCertificate demo_lib (Some demo_privKey) ''example.com'' [''Example''] [] []
                (validFor_of_days 30) False (demo_world (tl demo_rand))"
  have run: "?run = (Inr (demo_certificate 42 False 0), snd ?run)"
    using demo_NewCertificate by (metis prod.collapse)
  have serial: "keeps_serial demo_lib"
    unfolding demo_lib_def by (rule toy_keeps_serial)
  have fails: "rand_Int (rand_Reader (demo_world [1, 2, 3])) (push_bit 128 1) =
                 Some (Inl (Cause ''unexpected EOF''), [])"
    by (simp only: rand_Int_128) (simp add: demo_world_def)
  from NewCertificate_serial
         [of demo_lib "Some demo_privKey" "''example.com''" "[''Example'']" "[]" "[]"
             "validFor_of_days 30" False "demo_world (tl demo_rand)"
             "demo_certificate 42 False 0" "snd ?run" "Cause []" "[]"]
       run serial
  have drawn: "SerialNumber (demo_parsed 42 False) = SetBytes (take 16 (tl demo_rand))"
    by (auto simp: demo_certificate_def demo_world_def)
  from NewCertificate_serial
         [of demo_lib "Some demo_privKey" "''example.com''" "[''Example'']" "[]" "[]"
             "validFor_of_days 30" False "demo_world [1, 2, 3]" _ _
             "Cause ''unexpected EOF''" "[]"]
       fails
  have err: "fst (NewCertificate demo_lib (Some demo_privKey) ''example.com'' [''Example'']
                    [] [] (validFor_of_days 30) False (demo_world [1, 2, 3])) =
               Inl (SerialNumberError (Cause ''unexpected EOF''))" by blast
  have "SerialNumber (demo_parsed 42 False) = 42"
    by (simp add: demo_parsed_def toy_parsed_def demo_template_def new_template_def template_literal_def
                  Let_def)
  with drawn err fails serial show ?thesis
    using demo_NewCertificate by simp
qed

text \<open>
  The claim as stated fails when the sixteen bytes drawn are all zero: the call succeeds
  and the serial number is 0, which is not positive.
\<close>

theorem serial_zero_counterexample:
  "fst (NewCertificate demo_lib (Some demo_privKey) ''example.com'' [''Example''] [] []
          (validFor_of_days 30) False (demo_world zero_rand)) =
     Inr (demo_certificate 0 False 1) \<and>
   cert (demo_certificate 0 False 1) = Some (demo_parsed 0 False) \<and>
   SerialNumber (demo_parsed 0 False) = 0 \<and>
   \<not> 0 < SerialNumber (demo_parsed 0 False)"
  using demo_NewCertificate_zero
  by (simp add: demo_certificate_def demo_parsed_def toy_parsed_def demo_template_def new_template_def
                template_literal_def Let_def)

text \<open>
  Claim C4. In every certificate that \<open>NewCertificate\<close> builds, the key usage includes
  digital-signature; it includes certificate-signing if and only if \<open>isCA\<close> holds, and
  the CA flag is set if and only if \<open>isCA\<close> holds; the extended key usage is server
  authentication and client authentication whatever \<open>isCA\<close> is; and the basic
  constraints are marked valid. This holds of the template that is signed, and of the
  returned certificate where the library gives the usage fields back (\<open>keeps_usage\<close>).
\<close>

theorem NewCertificate_usage:
  assumes "NewCertificate lib privKey cn orgs dns ips validFor isCA w = (Inr c, w')"
  shows "\<exists>k serialNumber t rnd rnd' x.
           t = new_template serialNumber cn orgs (time_Now w) validFor dns ips isCA \<and>
           x509_CreateCertificate lib rnd t t (priv_PublicKey k) k = (Inr (derBytes c), rnd') \<and>
           cert c = Some x \<and> x509_ParseCertificate lib (derBytes c) = Inr x \<and>
           KeyUsage t AND KeyUsageDigitalSignature = KeyUsageDigitalSignature \<and>
           (isCA \<longleftrightarrow> KeyUsage t AND KeyUsageCertSign = KeyUsageCertSign) \<and>
           (isCA \<longleftrightarrow> IsCA t) \<and>
           KeyUsage t = (if isCA then KeyUsageDigitalSignature OR KeyUsageCertSign
                         else KeyUsageDigitalSignature) \<and>
           ExtKeyUsage t = [ExtKeyUsageServerAuth, ExtKeyUsageClientAuth] \<and>
           BasicConstraintsValid t \<and>
           (keeps_usage lib \<longrightarrow>
              KeyUsage x = KeyUsage t \<and> IsCA x = IsCA t \<and> ExtKeyUsage x = ExtKeyUsage t \<and>
              BasicConstraintsValid x)"
proof -
  define t where
    "t = new_template (SetBytes (take 16 (rand_Reader w))) cn orgs (time_Now w) validFor
           dns ips isCA"
  from NewCertificate_success [OF assms] obtain k rnd' x where
    h: "x509_CreateCertificate lib (drop 16 (rand_Reader w)) t t (priv_PublicKey k) k =
          (Inr (derBytes c), rnd')"
       "x509_ParseCertificate lib (derBytes c) = Inr x" "cert c = Some x"
    unfolding t_def time_Now_def by blast
  have ku: "KeyUsage t = (if isCA then KeyUsageDigitalSignature OR KeyUsageCertSign
                          else KeyUsageDigitalSignature)"
    by (simp add: t_def new_template_def template_literal_def Let_def)
  have ds: "KeyUsage t AND KeyUsageDigitalSignature = KeyUsageDigitalSignature"
    by (simp add: ku KeyUsageDigitalSignature_def KeyUsageCertSign_def)
  have cs: "isCA \<longleftrightarrow> KeyUsage t AND KeyUsageCertSign = KeyUsageCertSign"
    by (simp add: ku KeyUsageDigitalSignature_def KeyUsageCertSign_def)
  have ca: "isCA \<longleftrightarrow> IsCA t"
    by (simp add: t_def new_template_def template_literal_def Let_def zero_Certificate_def)
  have eku: "ExtKeyUsage t = [ExtKeyUsageServerAuth, ExtKeyUsageClientAuth]"
    by (simp add: t_def new_template_def template_literal_def Let_def)
  have bc: "BasicConstraintsValid t"
    by (simp add: t_def new_template_def template_literal_def Let_def)
  have range: "0 \<le> KeyUsage t \<and> KeyUsage t < 512"
    by (simp add: ku KeyUsageDigitalSignature_def KeyUsageCertSign_def)
  have "keeps_usage lib \<longrightarrow>
          KeyUsage x = KeyUsage t \<and> IsCA x = IsCA t \<and> ExtKeyUsage x = ExtKeyUsage t \<and>
          BasicConstraintsValid x"
  proof
    assume "keeps_usage lib"
    with h(1,2) have
      "ExtKeyUsage x = ExtKeyUsage t \<and> BasicConstraintsValid x = BasicConstraintsValid t \<and>
       (BasicConstraintsValid t \<longrightarrow> IsCA x = IsCA t) \<and>
       (0 \<le> KeyUsage t \<and> KeyUsage t < 512 \<longrightarrow> KeyUsage x = KeyUsage t)"
      unfolding keeps_usage_def by blast
    with bc range show
      "KeyUsage x = KeyUsage t \<and> IsCA x = IsCA t \<and> ExtKeyUsage x = ExtKeyUsage t \<and>
       BasicConstraintsValid x" by simp
  qed
  with t_def h ku ds cs ca eku bc have
    "t = new_template (SetBytes (take 16 (rand_Reader w))) cn orgs (time_Now w) validFor
           dns ips isCA \<and>
     x509_CreateCertificate lib (drop 16 (rand_Reader w)) t t (priv_PublicKey k) k =
       (Inr (derBytes c), rnd') \<and>
     cert c = Some x \<and> x509_ParseCertificate lib (derBytes c) = Inr x \<and>
     KeyUsage t AND KeyUsageDigitalSignature = KeyUsageDigitalSignature \<and>
     (isCA \<longleftrightarrow> KeyUsage t AND KeyUsageCertSign = KeyUsageCertSign) \<and>
     (isCA \<longleftrightarrow> IsCA t) \<and>
     KeyUsage t = (if isCA then KeyUsageDigitalSignature OR KeyUsageCertSign
                   else KeyUsageDigitalSignature) \<and>
     ExtKeyUsage t = [ExtKeyUsageServerAuth, ExtKeyUsageClientAuth] \<and>
     BasicConstraintsValid t \<and>
     (keeps_usage lib \<longrightarrow>
        KeyUsage x = KeyUsage t \<and> IsCA x = IsCA t \<and> ExtKeyUsage x = ExtKeyUsage t \<and>
        BasicConstraintsValid x)" by blast
  then show ?thesis by (intro exI) assumption
qed

text \<open>The sample call with \<open>isCA\<close> set: key usage 33 is digital-signature and certificate-signing.\<close>

theorem NewCertificate_usage_witness:
  "fst (NewCertificate demo_lib (Some demo_privKey) ''example.com'' [''Example''] [] []
          (validFor_of_days 30) True (demo_world (tl demo_rand))) =
     Inr (demo_certificate 42 True 2) \<and>
   keeps_usage demo_lib \<and>
   KeyUsage (demo_parsed 42 True) = 33 \<and> IsCA (demo_parsed 42 True) \<and>
   ExtKeyUsage (demo_parsed 42 True) = [ExtKeyUsageServerAuth, ExtKeyUsageClientAuth] \<and>
   BasicConstraintsValid (demo_parsed 42 True)"
proof -
  let ?run = "NewCertificate demo_lib (Some demo_privKey) ''example.com'' [''Example''] [] []
                (validFor_of_days 30) True (demo_world (tl demo_rand))"
  have run: "?run = (Inr (demo_certificate 42 True 2), snd ?run)"
    using demo_NewCertificate_CA by (metis prod.collapse)
  have usage: "keeps_usage demo_lib"
    unfolding demo_lib_def by (rule toy_keeps_usage)
  from NewCertificate_usage [OF run] usage
  have "KeyUsage (demo_parsed 42 True) = KeyUsageDigitalSignature OR KeyUsageCertSign \<and>
        IsCA (demo_parsed 42 True) \<and>
        ExtKeyUsage (demo_parsed 42 True) = [ExtKeyUsageServerAuth, ExtKeyUsageClientAuth] \<and>
        BasicConstraintsValid (demo_parsed 42 True)"
    by (auto simp: demo_certificate_def)
  then show ?thesis
    using demo_NewCertificate_CA usage
    by (simp add: KeyUsageDigitalSignature_def KeyUsageCertSign_def)
qed

text \<open>
  Claim C5. A key generated by \<open>NewPrivateKey\<close> lies on P-256; after \<open>SaveToFile\<close> has
  saved it to a path, \<open>LoadPrivateKeyFromFile\<close> on that path succeeds and yields a key on
  P-256 with the same public component. The library is taken to generate on the curve it
  is asked for and to parse what it marshalled (\<open>key_roundtrip\<close>).
\<close>

theorem save_load_roundtrip:
  assumes "key_roundtrip lib"
    and "NewPrivateKey lib w0 = (Inr p, w1)"
    and "PrivateKey_SaveToFile lib (Some p) filePath w = (Inr (), w')"
  shows "\<exists>k p' k' w''.
           key p = Some k \<and> pub_Curve (priv_PublicKey k) = P256 \<and>
           LoadPrivateKeyFromFile lib filePath w' = (Inr p', w'') \<and>
           key p' = Some k' \<and> pub_Curve (priv_PublicKey k') = P256 \<and>
           priv_PublicKey k' = priv_PublicKey k"
proof -
  from NewPrivateKey_success [OF assms(2)] obtain k rnd' where
    k: "ecdsa_GenerateKey lib P256 (rand_Reader w0) = (Inr k, rnd')" "key p = Some k" by blast
  from PrivateKey_SaveToFile_success [OF assms(3)] k(2) obtain der where
    der: "x509_MarshalECPrivateKey lib k = Inr der" "files w' = (files w)(filePath \<mapsto> der)"
    by auto
  from assms(1) k(1) der(1) have curve: "pub_Curve (priv_PublicKey k) = P256"
    and "\<exists>k'. x509_ParseECPrivateKey lib der = Inr k' \<and> priv_PublicKey k' = priv_PublicKey k"
    unfolding key_roundtrip_def by blast+
  then obtain k' where
    k': "x509_ParseECPrivateKey lib der = Inr k'" "priv_PublicKey k' = priv_PublicKey k"
    by blast
  have "fst (LoadPrivateKeyFromFile lib filePath w') = Inr \<lparr>key = Some k'\<rparr>"
    using der(2) k'(1) by (simp add: LoadPrivateKeyFromFile_def os_ReadFile_def Let_def)
  then have "LoadPrivateKeyFromFile lib filePath w' =
               (Inr \<lparr>key = Some k'\<rparr>, snd (LoadPrivateKeyFromFile lib filePath w'))"
    by (metis prod.collapse)
  moreover have "key \<lparr>key = Some k'\<rparr> = Some k'" by simp
  ultimately show ?thesis using k(2) curve k'(2) by (metis (no_types))
qed

text \<open>The sample key, saved to \<open>out.key\<close> and loaded again.\<close>

theorem save_load_roundtrip_witness:
  "key_roundtrip demo_lib \<and>
   fst (NewPrivateKey demo_lib (demo_world demo_rand)) = Inr demo_privKey \<and>
   fst (PrivateKey_SaveToFile demo_lib (Some demo_privKey) ''out.key'' (demo_world [])) = Inr () \<and>
   (\<exists>p' k'. fst (LoadPrivateKeyFromFile demo_lib ''out.key''
                   (snd (PrivateKey_SaveToFile demo_lib (Some demo_privKey) ''out.key''
                           (demo_world [])))) = Inr p' \<and>
            key p' = Some k' \<and> pub_Curve (priv_PublicKey k') = P256 \<and>
            priv_PublicKey k' = \<lparr>pub_Curve = P256, pub_X = 5, pub_Y = 6\<rparr>)"
proof -
  let ?gen = "NewPrivateKey demo_lib (demo_world demo_rand)"
  let ?save = "PrivateKey_SaveToFile demo_lib (Some demo_privKey) ''out.key'' (demo_world [])"
  have rt: "key_roundtrip demo_lib"
    unfolding demo_lib_def by (rule toy_key_roundtrip)
  have g: "fst ?gen = Inr demo_privKey" by (simp add: demo_defs run_defs)
  then have gen: "?gen = (Inr demo_privKey, snd ?gen)" by (metis prod.collapse)
  have s: "fst ?save = Inr ()" by (simp add: demo_defs run_defs)
  then have save: "?save = (Inr (), snd ?save)" by (metis prod.collapse)
  from save_load_roundtrip [OF rt gen save]
  have "\<exists>p' k'. fst (LoadPrivateKeyFromFile demo_lib ''out.key'' (snd ?save)) = Inr p' \<and>
            key p' = Some k' \<and> pub_Curve (priv_PublicKey k') = P256 \<and>
            priv_PublicKey k' = \<lparr>pub_Curve = P256, pub_X = 5, pub_Y = 6\<rparr>"
    by (auto simp: demo_privKey_def toy_key_def)
  with rt g s show ?thesis by blast
qed

text \<open>
  Claim C6. With no \<open>-cert\<close> value, the certificate path is the key path with its
  extension replaced by \<open>.crt\<close>: the key path is a base followed by its extension, and
  the certificate path is that base followed by \<open>.crt\<close>. The extension is empty or
  begins at a dot and holds no further dot and no slash; it is empty only when every dot
  of the path is followed by a slash. When the generator succeeds (so the key path is not
  empty), the template it had signed has the \<open>-cn\<close> value as common name and the one
  \<open>-org\<close> value as organizations, so has the returned certificate where the library
  gives names back as the standard library does (\<open>keeps_names\<close>: the common name, and
  the organizations up to their order, which for one organization is the list itself),
  and the file at the derived path holds its DER bytes.
\<close>

theorem derived_certificate_path_and_subject:
  assumes "flag_cert fl = []"
  shows "(\<exists>base. flag_key fl = base @ filepath_Ext (flag_key fl) \<and>
                  derived_certFilePath fl = base @ ''.crt'') \<and>
         (filepath_Ext (flag_key fl) = [] \<or>
            hd (filepath_Ext (flag_key fl)) = CHR ''.'' \<and>
            CHR ''.'' \<notin> set (tl (filepath_Ext (flag_key fl))) \<and>
            CHR ''/'' \<notin> set (filepath_Ext (flag_key fl))) \<and>
         (\<forall>base rest. filepath_Ext (flag_key fl) = [] \<and> flag_key fl = base @ CHR ''.'' # rest
            \<longrightarrow> CHR ''/'' \<in> set rest) \<and>
         (main_cert lib fl w = (0, w') \<longrightarrow>
            (\<exists>k u u' c serialNumber t rnd rnd' x der.
                flag_key fl \<noteq> [] \<and>
                NewCertificate lib (Some \<lparr>key = Some k\<rparr>) (flag_cn fl) [flag_org fl] [] []
                  (validFor_of_days (flag_days fl)) False u = (Inr c, u') \<and>
                t = new_template serialNumber (flag_cn fl) [flag_org fl] (time_Now u)
                      (validFor_of_days (flag_days fl)) [] [] False \<and>
                x509_CreateCertificate lib rnd t t (priv_PublicKey k) k =
                  (Inr (derBytes c), rnd') \<and>
                CommonName (Subject t) = flag_cn fl \<and>
                Organization (Subject t) = [flag_org fl] \<and>
                cert c = Some x \<and> x509_ParseCertificate lib (derBytes c) = Inr x \<and>
                (keeps_names lib \<longrightarrow>
                   CommonName (Subject x) = flag_cn fl \<and>
                   Organization (Subject x) = [flag_org fl]) \<and>
                derBytes c = Some der \<and>
                files w' (derived_certFilePath fl) = Some der))"
proof (intro conjI impI allI)
  from filepath_Ext_suffix [of "flag_key fl"] obtain base where
    base: "flag_key fl = base @ filepath_Ext (flag_key fl)" by blast
  from derived_certFilePath_Ext [OF assms base] base
  show "\<exists>base. flag_key fl = base @ filepath_Ext (flag_key fl) \<and>
               derived_certFilePath fl = base @ ''.crt''" by blast
next
  show "filepath_Ext (flag_key fl) = [] \<or>
          hd (filepath_Ext (flag_key fl)) = CHR ''.'' \<and>
          CHR ''.'' \<notin> set (tl (filepath_Ext (flag_key fl))) \<and>
          CHR ''/'' \<notin> set (filepath_Ext (flag_key fl))"
    by (rule filepath_Ext_shape)
next
  fix base rest
  assume "filepath_Ext (flag_key fl) = [] \<and> flag_key fl = base @ CHR ''.'' # rest"
  then show "CHR ''/'' \<in> set rest" using filepath_Ext_none by blast
next
  assume run: "main_cert lib fl w = (0, w')"
  from main_cert_run [OF run] obtain k rndk keyDer c certDer u u' where
    ne: "flag_key fl \<noteq> []" and "derived_certFilePath fl \<noteq> []"
    and "ecdsa_GenerateKey lib P256 (rand_Reader w) = (Inr k, rndk)"
    and "x509_MarshalECPrivateKey lib k = Inr keyDer"
    and new: "NewCertificate lib (Some \<lparr>key = Some k\<rparr>) (flag_cn fl) [flag_org fl] [] []
                (validFor_of_days (flag_days fl)) False u = (Inr c, u')"
    and der: "derBytes c = Some certDer"
    and files: "files w' = (files w)(flag_key fl \<mapsto> keyDer,
                                     derived_certFilePath fl \<mapsto> certDer)"
    by (elim exE conjE) (rule that, assumption+)
  define t where
    "t = new_template (SetBytes (take 16 (rand_Reader u))) (flag_cn fl) [flag_org fl]
           (time_Now u) (validFor_of_days (flag_days fl)) [] [] False"
  from NewCertificate_success [OF new] obtain rnd' x where
    h: "x509_CreateCertificate lib (drop 16 (rand_Reader u)) t t (priv_PublicKey k) k =
          (Inr (derBytes c), rnd')"
       "x509_ParseCertificate lib (derBytes c) = Inr x" "cert c = Some x"
    unfolding t_def time_Now_def by auto
  have subj: "CommonName (Subject t) = flag_cn fl" "Organization (Subject t) = [flag_org fl]"
    by (simp_all add: t_def new_template_def template_literal_def Let_def)
  have "keeps_names lib \<longrightarrow>
          CommonName (Subject x) = CommonName (Subject t) \<and>
          mset (Organization (Subject x)) = mset (Organization (Subject t))"
    using h(1,2) unfolding keeps_names_def by blast
  with subj have kept: "keeps_names lib \<longrightarrow>
      CommonName (Subject x) = flag_cn fl \<and> Organization (Subject x) = [flag_org fl]" by simp
  have "files w' (derived_certFilePath fl) = Some certDer" using files by simp
  with ne new t_def h subj kept der have all:
    "flag_key fl \<noteq> [] \<and>
     NewCertificate lib (Some \<lparr>key = Some k\<rparr>) (flag_cn fl) [flag_org fl] [] []
       (validFor_of_days (flag_days fl)) False u = (Inr c, u') \<and>
     t = new_template (SetBytes (take 16 (rand_Reader u))) (flag_cn fl) [flag_org fl]
           (time_Now u) (validFor_of_days (flag_days fl)) [] [] False \<and>
     x509_CreateCertificate lib (drop 16 (rand_Reader u)) t t (priv_PublicKey k) k =
       (Inr (derBytes c), rnd') \<and>
     CommonName (Subject t) = flag_cn fl \<and>
     Organization (Subject t) = [flag_org fl] \<and>
     cert c = Some x \<and> x509_ParseCertificate lib (derBytes c) = Inr x \<and>
     (keeps_names lib \<longrightarrow>
        CommonName (Subject x) = flag_cn fl \<and>
        Organization (Subject x) = [flag_org fl]) \<and>
     derBytes c = Some certDer \<and>
     files w' (derived_certFilePath fl) = Some certDer" by simp
  from all show
    "\<exists>k u u' c serialNumber t rnd rnd' x der.
        flag_key fl \<noteq> [] \<and>
        NewCertificate lib (Some \<lparr>key = Some k\<rparr>) (flag_cn fl) [flag_org fl] [] []
          (validFor_of_days (flag_days fl)) False u = (Inr c, u') \<and>
        t = new_template serialNumber (flag_cn fl) [flag_org fl] (time_Now u)
              (validFor_of_days (flag_days fl)) [] [] False \<and>
        x509_CreateCertificate lib rnd t t (priv_PublicKey k) k = (Inr (derBytes c), rnd') \<and>
        CommonName (Subject t) = flag_cn fl \<and>
        Organization (Subject t) = [flag_org fl] \<and>
        cert c = Some x \<and> x509_ParseCertificate lib (derBytes c) = Inr x \<and>
        (keeps_names lib \<longrightarrow>
           CommonName (Subject x) = flag_cn fl \<and>
           Organization (Subject x) = [flag_org fl]) \<and>
        derBytes c = Some der \<and>
        files w' (derived_certFilePath fl) = Some der"
    by (intro exI) assumption
qed

text \<open>The sample run of the specification: \<open>out.key\<close> gives \<open>out.crt\<close>.\<close>

theorem derived_certificate_path_and_subject_witness:
  "flag_cert demo_flags = [] \<and>
   fst (main_cert demo_lib demo_flags (demo_world demo_rand)) = 0 \<and>
   keeps_names demo_lib \<and>
   flag_key demo_flags = ''out.key'' \<and>
   filepath_Ext (flag_key demo_flags) = ''.key'' \<and>
   derived_certFilePath demo_flags = ''out.crt'' \<and>
   (\<exists>(c :: Certificate) x der.
      cert c = Some x \<and> CommonName (Subject x) = ''example.com'' \<and>
      Organization (Subject x) = [''Example''] \<and> derBytes c = Some der \<and>
      files (snd (main_cert demo_lib demo_flags (demo_world demo_rand))) ''out.crt'' = Some der)"
proof -
  let ?main = "main_cert demo_lib demo_flags (demo_world demo_rand)"
  have nocert: "flag_cert demo_flags = []" by (simp add: demo_flags_def)
  have main: "?main = (0, snd ?main)" using demo_main_cert by (metis prod.collapse)
  have names: "keeps_names demo_lib" unfolding demo_lib_def by (rule toy_keeps_names)
  have keyp: "flag_key demo_flags = ''out.key''" by (simp add: demo_flags_def)
  have ext: "filepath_Ext (flag_key demo_flags) = ''.key''"
    by (simp add: keyp filepath_Ext_def)
  have cn: "flag_cn demo_flags = ''example.com''" "flag_org demo_flags = ''Example''"
    by (simp_all add: demo_flags_def)
  note inst = derived_certificate_path_and_subject
               [OF nocert, of demo_lib "demo_world demo_rand" "snd ?main"]
  from inst obtain base where
    "flag_key demo_flags = base @ filepath_Ext (flag_key demo_flags)"
    "derived_certFilePath demo_flags = base @ ''.crt''" by blast
  with keyp ext have path: "derived_certFilePath demo_flags = ''out.crt''" by simp
  from inst main names cn path
  have "\<exists>(c :: Certificate) x der.
      cert c = Some x \<and> CommonName (Subject x) = ''example.com'' \<and>
      Organization (Subject x) = [''Example''] \<and> derBytes c = Some der \<and>
      files (snd ?main) ''out.crt'' = Some der"
    by (elim conjE) (simp, blast)
  with nocert demo_main_cert names keyp ext path show ?thesis by blast
qed





text \<open>
  Claim C8. With an empty \<open>-key\<close> value the key and certificate generator, and with an
  empty \<open>-o\<close> value the key-only generator, ends with exit status 1 having logged one
  error message and printed the usage, and nothing else: the world it leaves differs from
  the one it found by these two trace entries only, so no key was generated, no other
  cryptographic operation ran and no file was written.
\<close>

theorem empty_path_exits_first:
  "(flag_key fl = [] \<longrightarrow>
      main_cert lib fl w =
        (1, w\<lparr>trace := trace w @
                 [Log Error ''Private key output file path cannot be empty'', FlagUsage]\<rparr>)) \<and>
   (outputFilePath = [] \<longrightarrow>
      main_keygen lib outputFilePath w =
        (1, w\<lparr>trace := trace w @ [Log Error ''Output file path cannot be empty'', FlagUsage]\<rparr>))"
  by (simp add: main_cert_def main_keygen_def slog_Error_def emit_def)

text \<open>Both generators with an empty path, on the sample world.\<close>

theorem empty_path_exits_first_witness:
  "flag_key (demo_flags\<lparr>flag_key := []\<rparr>) = [] \<and>
   main_cert demo_lib (demo_flags\<lparr>flag_key := []\<rparr>) (demo_world demo_rand) =
     (1, demo_world demo_rand
           \<lparr>trace := [Log Error ''Private key output file path cannot be empty'', FlagUsage]\<rparr>) \<and>
   main_keygen demo_lib [] (demo_world demo_rand) =
     (1, demo_world demo_rand
           \<lparr>trace := [Log Error ''Output file path cannot be empty'', FlagUsage]\<rparr>)"
  using empty_path_exits_first [of "demo_flags\<lparr>flag_key := []\<rparr>" demo_lib "demo_world demo_rand" "[]"]
  by (simp add: demo_world_def)

text \<open>
  Claim C9. The DER bytes stored in a certificate that \<open>NewCertificate\<close> returns parse
  back to exactly the structured certificate stored beside them. \<open>SaveToFile\<close> of a
  certificate whose DER bytes are nil returns the precondition error and leaves the world
  as it was. A certificate returned by \<open>NewCertificate\<close> is never in that state, and
  saving it never gives that error, as long as parsing a nil slice fails
  (\<open>rejects_nil\<close>).
\<close>

theorem Certificate_der_consistent:
  "(NewCertificate lib privKey cn orgs dns ips validFor isCA w = (Inr c, w') \<longrightarrow>
      (\<exists>x. cert c = Some x \<and> x509_ParseCertificate lib (derBytes c) = Inr x) \<and>
      (rejects_nil lib \<longrightarrow>
         derBytes c \<noteq> None \<and>
         fst (Certificate_SaveToFile (Some c) filePath v) \<noteq> Inl NilDERBytesError)) \<and>
   (derBytes c0 = None \<longrightarrow>
      Certificate_SaveToFile (Some c0) filePath v = (Inl NilDERBytesError, v))"
proof (intro conjI impI)
  assume run: "NewCertificate lib privKey cn orgs dns ips validFor isCA w = (Inr c, w')"
  from NewCertificate_success [OF run]
  show parse: "\<exists>x. cert c = Some x \<and> x509_ParseCertificate lib (derBytes c) = Inr x" by blast
  assume "rejects_nil lib"
  then obtain e where "x509_ParseCertificate lib None = Inl e" by (auto simp: rejects_nil_def)
  with parse show nn: "derBytes c \<noteq> None" by (cases "derBytes c") auto
  then show "fst (Certificate_SaveToFile (Some c) filePath v) \<noteq> Inl NilDERBytesError"
    by (auto simp: Certificate_SaveToFile_def split: prod.splits sum.splits)
next
  assume "derBytes c0 = None"
  then show "Certificate_SaveToFile (Some c0) filePath v = (Inl NilDERBytesError, v)"
    by (simp add: Certificate_SaveToFile_def)
qed

text \<open>The sample certificate, and a certificate with no DER bytes.\<close>

theorem Certificate_der_consistent_witness:
  "fst (NewCertificate demo_lib (Some demo_privKey) ''example.com'' [''Example''] [] []
          (validFor_of_days 30) False (demo_world (tl demo_rand))) =
     Inr (demo_certificate 42 False 0) \<and>
   rejects_nil demo_lib \<and>
   x509_ParseCertificate demo_lib (derBytes (demo_certificate 42 False 0)) =
     Inr (demo_parsed 42 False) \<and>
   derBytes (demo_certificate 42 False 0) \<noteq> None \<and>
   fst (Certificate_SaveToFile (Some (demo_certificate 42 False 0)) ''out.crt'' (demo_world []))
     \<noteq> Inl NilDERBytesError \<and>
   derBytes \<lparr>cert = None, derBytes = None\<rparr> = None \<and>
   Certificate_SaveToFile (Some \<lparr>cert = None, derBytes = None\<rparr>) ''out.crt'' (demo_world []) =
     (Inl NilDERBytesError, demo_world [])"
proof -
  let ?run = "NewCertificate demo_lib (Some demo_privKey) ''example.com'' [''Example''] [] []
                (validFor_of_days 30) False (demo_world (tl demo_rand))"
  have run: "?run = (Inr (demo_certificate 42 False 0), snd ?run)"
    using demo_NewCertificate by (metis prod.collapse)
  have nil: "rejects_nil demo_lib"
    unfolding demo_lib_def by (rule toy_rejects_nil)
  have none: "derBytes \<lparr>cert = None, derBytes = None\<rparr> = None" by simp
  from Certificate_der_consistent
         [of demo_lib "Some demo_privKey" "''example.com''" "[''Example'']" "[]" "[]"
             "validFor_of_days 30" False "demo_world (tl demo_rand)"
             "demo_certificate 42 False 0" "snd ?run" "''out.crt''" "demo_world []"
             "\<lparr>cert = None, derBytes = None\<rparr>"]
       run nil none
  show ?thesis
    using demo_NewCertificate
    by (auto simp: demo_certificate_def)
qed

text \<open>
  Claim C10. With no \<open>-cert\<close> value and a key path whose extension is \<open>.crt\<close>, the
  derived certificate path is the key path itself. When the generator succeeds, it has
  written the marshalled private key to that path and, later, the DER bytes of the
  certificate to the same path, and the file holds the certificate's bytes at the end: the
  private key just written is overwritten.
\<close>

theorem crt_key_path_is_overwritten:
  assumes "flag_cert fl = []" and "filepath_Ext (flag_key fl) = ''.crt''"
  shows "derived_certFilePath fl = flag_key fl \<and>
         (main_cert lib fl w = (0, w') \<longrightarrow>
            (\<exists>k rndk keyDer u u' c certDer pre mid post.
                ecdsa_GenerateKey lib P256 (rand_Reader w) = (Inr k, rndk) \<and>
                x509_MarshalECPrivateKey lib k = Inr keyDer \<and>
                NewCertificate lib (Some \<lparr>key = Some k\<rparr>) (flag_cn fl) [flag_org fl] [] []
                  (validFor_of_days (flag_days fl)) False u = (Inr c, u') \<and>
                derBytes c = Some certDer \<and>
                trace w' = trace w @ pre @
                  [FileWrite (flag_key fl) keyDer (octal [0, 6, 0, 0])] @ mid @
                  [FileWrite (flag_key fl) certDer (octal [0, 6, 4, 4])] @ post \<and>
                files w' (flag_key fl) = Some certDer))"
proof (intro conjI impI)
  from filepath_Ext_suffix [of "flag_key fl"] obtain base where
    base: "flag_key fl = base @ filepath_Ext (flag_key fl)" by blast
  from derived_certFilePath_Ext [OF assms(1) base] base assms(2)
  show same: "derived_certFilePath fl = flag_key fl" by simp
  assume run: "main_cert lib fl w = (0, w')"
  from main_cert_run [OF run] obtain k rndk keyDer c certDer u u' where
    "flag_key fl \<noteq> []" "derived_certFilePath fl \<noteq> []"
    and g: "ecdsa_GenerateKey lib P256 (rand_Reader w) = (Inr k, rndk)"
    and m: "x509_MarshalECPrivateKey lib k = Inr keyDer"
    and new: "NewCertificate lib (Some \<lparr>key = Some k\<rparr>) (flag_cn fl) [flag_org fl] [] []
           (validFor_of_days (flag_days fl)) False u = (Inr c, u')"
    and der: "derBytes c = Some certDer"
    and files: "files w' = (files w)(flag_key fl \<mapsto> keyDer,
                                     derived_certFilePath fl \<mapsto> certDer)"
    and trace: "trace w' = trace w @
             [Log Info ''Generating new private key...'', Crypto OpGenerateKey,
              Log Info ''Generated new private key'', Log Info ''Saving private key...'',
              Crypto OpMarshalECPrivateKey,
              FileWrite (flag_key fl) keyDer (octal [0, 6, 0, 0]),
              Log Info ''Saved private key in DER format'',
              Log Info ''Successfully saved private key'',
              Log Info ''Generating new certificate...'', Crypto OpRandInt,
              Crypto OpCreateCertificate, Crypto OpParseCertificate,
              Log Info ''Successfully created new certificate'',
              Log Info ''Saving certificate...'',
              FileWrite (derived_certFilePath fl) certDer (octal [0, 6, 4, 4]),
              Log Info ''Saved certificate in DER format'',
              Log Info ''Successfully generated and saved certificate'']"
    by (elim exE conjE) (rule that, assumption+)
  define pre where "pre = [Log Info ''Generating new private key...'', Crypto OpGenerateKey,
              Log Info ''Generated new private key'', Log Info ''Saving private key...'',
              Crypto OpMarshalECPrivateKey]"
  define mid where "mid = [Log Info ''Saved private key in DER format'',
              Log Info ''Successfully saved private key'',
              Log Info ''Generating new certificate...'', Crypto OpRandInt,
              Crypto OpCreateCertificate, Crypto OpParseCertificate,
              Log Info ''Successfully created new certificate'',
              Log Info ''Saving certificate...'']"
  define post where "post = [Log Info ''Saved certificate in DER format'',
              Log Info ''Successfully generated and saved certificate'']"
  have "trace w' = trace w @ pre @
          [FileWrite (flag_key fl) keyDer (octal [0, 6, 0, 0])] @ mid @
          [FileWrite (flag_key fl) certDer (octal [0, 6, 4, 4])] @ post"
    using trace same by (simp add: pre_def mid_def post_def)
  moreover have "files w' (flag_key fl) = Some certDer" using files same by simp
  ultimately have
    "ecdsa_GenerateKey lib P256 (rand_Reader w) = (Inr k, rndk) \<and>
     x509_MarshalECPrivateKey lib k = Inr keyDer \<and>
     NewCertificate lib (Some \<lparr>key = Some k\<rparr>) (flag_cn fl) [flag_org fl] [] []
       (validFor_of_days (flag_days fl)) False u = (Inr c, u') \<and>
     derBytes c = Some certDer \<and>
     trace w' = trace w @ pre @
       [FileWrite (flag_key fl) keyDer (octal [0, 6, 0, 0])] @ mid @
       [FileWrite (flag_key fl) certDer (octal [0, 6, 4, 4])] @ post \<and>
     files w' (flag_key fl) = Some certDer"
    using g m new der by simp
  then show
    "\<exists>k rndk keyDer u u' c certDer pre mid post.
        ecdsa_GenerateKey lib P256 (rand_Reader w) = (Inr k, rndk) \<and>
        x509_MarshalECPrivateKey lib k = Inr keyDer \<and>
        NewCertificate lib (Some \<lparr>key = Some k\<rparr>) (flag_cn fl) [flag_org fl] [] []
          (validFor_of_days (flag_days fl)) False u = (Inr c, u') \<and>
        derBytes c = Some certDer \<and>
        trace w' = trace w @ pre @
          [FileWrite (flag_key fl) keyDer (octal [0, 6, 0, 0])] @ mid @
          [FileWrite (flag_key fl) certDer (octal [0, 6, 4, 4])] @ post \<and>
        files w' (flag_key fl) = Some certDer"
    by (intro exI) assumption
qed

text \<open>The sample run with \<open>-key k.crt\<close>: both writes go to \<open>k.crt\<close>.\<close>

theorem crt_key_path_is_overwritten_witness:
  "flag_cert (demo_flags\<lparr>flag_key := ''k.crt''\<rparr>) = [] \<and>
   filepath_Ext (flag_key (demo_flags\<lparr>flag_key := ''k.crt''\<rparr>)) = ''.crt'' \<and>
   derived_certFilePath (demo_flags\<lparr>flag_key := ''k.crt''\<rparr>) = ''k.crt'' \<and>
   fst (main_cert demo_lib (demo_flags\<lparr>flag_key := ''k.crt''\<rparr>) (demo_world demo_rand)) = 0 \<and>
   (\<exists>keyDer certDer pre mid post.
      trace (snd (main_cert demo_lib (demo_flags\<lparr>flag_key := ''k.crt''\<rparr>)
                    (demo_world demo_rand))) =
        pre @ [FileWrite ''k.crt'' keyDer 384] @ mid @ [FileWrite ''k.crt'' certDer 420] @ post \<and>
      files (snd (main_cert demo_lib (demo_flags\<lparr>flag_key := ''k.crt''\<rparr>)
                    (demo_world demo_rand))) ''k.crt'' = Some certDer)"
proof -
  let ?fl = "demo_flags\<lparr>flag_key := ''k.crt''\<rparr>"
  let ?main = "main_cert demo_lib ?fl (demo_world demo_rand)"
  have nocert: "flag_cert ?fl = []" by (simp add: demo_flags_def)
  have keyp: "flag_key ?fl = ''k.crt''" by simp
  have ext: "filepath_Ext (flag_key ?fl) = ''.crt''" by (simp add: filepath_Ext_def)
  have main: "?main = (0, snd ?main)" using demo_main_cert_crt by (metis prod.collapse)
  have start: "trace (demo_world demo_rand) = []" by (simp add: demo_world_def)
  note inst = crt_key_path_is_overwritten
                [OF nocert ext, of demo_lib "demo_world demo_rand" "snd ?main"]
  from inst keyp have path: "derived_certFilePath ?fl = ''k.crt''" by simp
  from inst main obtain keyDer certDer pre mid post where
    "trace (snd ?main) = trace (demo_world demo_rand) @ pre @
       [FileWrite (flag_key ?fl) keyDer (octal [0, 6, 0, 0])] @ mid @
       [FileWrite (flag_key ?fl) certDer (octal [0, 6, 4, 4])] @ post"
    "files (snd ?main) (flag_key ?fl) = Some certDer"
    by blast
  then have "trace (snd ?main) =
       pre @ [FileWrite ''k.crt'' keyDer 384] @ mid @ [FileWrite ''k.crt'' certDer 420] @ post \<and>
     files (snd ?main) ''k.crt'' = Some certDer"
    by (simp add: start octal_0600 octal_0644)
  then have "\<exists>keyDer certDer pre mid post.
      trace (snd ?main) =
        pre @ [FileWrite ''k.crt'' keyDer 384] @ mid @ [FileWrite ''k.crt'' certDer 420] @ post \<and>
      files (snd ?main) ''k.crt'' = Some certDer"
    by (intro exI) assumption
  with nocert ext path demo_main_cert_crt show ?thesis by blast
qed

end
